theory Spec2Isabelle
  imports Complex_Main
begin

section \<open>Python values and containers used by the simulator\<close>

text \<open>
  The simulator is Python. A Python number, \<open>int\<close> or \<open>float\<close>, is modelled by the
  real number it denotes; a float is a binary double, hence a dyadic rational. Python
  compares the two kinds by these values (\<open>1 == 1.0\<close>). A wall-clock reading
  (\<open>datetime.now()\<close>, \<open>time.time()\<close>) is a real number of seconds; every method that
  reads the clock takes the reading as its argument \<open>now\<close>, one instant per call.
\<close>

datatype pyval =
    PNone
  | PBool bool
  | PNum real
  | PStr string
  | PLocation real real

text \<open>Python truthiness, as used by \<open>x or default\<close> and \<open>if x\<close>.\<close>

fun truthy :: "pyval \<Rightarrow> bool" where
  "truthy PNone = False"
| "truthy (PBool b) = b"
| "truthy (PNum r) = (r \<noteq> 0)"
| "truthy (PStr s) = (s \<noteq> [])"
| "truthy (PLocation la lo) = True"

text \<open>
  A Python \<open>dict\<close> keeps its keys in insertion order: an association list with
  one pair per key. \<open>d[k] = v\<close> overwrites in place or appends.
\<close>

type_synonym ('k, 'v) pydict = "('k \<times> 'v) list"

primrec dict_setitem :: "'k \<Rightarrow> 'v \<Rightarrow> ('k, 'v) pydict \<Rightarrow> ('k, 'v) pydict" where
  "dict_setitem k v [] = [(k, v)]"
| "dict_setitem k v (p # ps) = (if fst p = k then (k, v) # ps else p # dict_setitem k v ps)"

definition dict_get :: "('k, 'v) pydict \<Rightarrow> 'k \<Rightarrow> 'v \<Rightarrow> 'v" where
  "dict_get d k dflt = (case map_of d k of Some v \<Rightarrow> v | None \<Rightarrow> dflt)"

text \<open>
  \<open>collections.deque(maxlen=n)\<close>: \<open>append\<close> adds on the right and, when the length then
  exceeds \<open>maxlen\<close>, drops the leftmost item; with \<open>maxlen = 0\<close> nothing is stored.
\<close>

record 'a deque =
  maxlen :: nat
  items :: "'a list"

definition deque_new :: "nat \<Rightarrow> 'a deque" where
  "deque_new n = \<lparr>maxlen = n, items = []\<rparr>"

definition deque_append :: "'a \<Rightarrow> 'a deque \<Rightarrow> 'a deque" where
  "deque_append x q =
     (if maxlen q = 0 then q
      else (let ys = items q @ [x]
            in q\<lparr>items := (if length ys > maxlen q then tl ys else ys)\<rparr>))"

definition deque_clear :: "'a deque \<Rightarrow> 'a deque" where
  "deque_clear q = q\<lparr>items := []\<rparr>"

section \<open>Events\<close>

text \<open>
  \<open>EventMixin.emit_event\<close> hands an event to the global bus, which calls the subscribed
  handlers and swallows their exceptions. The handlers are outside this model: an
  object's emitted events are kept in a log, in emission order.
\<close>

datatype event =
    METRICS_UPDATED string string real
  | MESSAGE_SENT string "(string, pyval) pydict" real
  | MESSAGE_FAILED string real
  | SIMULATION_STARTED string
  | SIMULATION_STOPPED string

section \<open>monitoring/metrics\_collector.py\<close>

record device_entry =
  m_message_count :: int
  m_error_count :: int
  m_last_message_time :: "real option"
  m_connection_status :: string
  m_simulation_status :: string

record system_metrics =
  total_messages :: int
  total_errors :: int
  messages_per_second :: real
  active_devices :: int
  connected_devices :: int

record system_report = system_metrics +
  uptime_seconds :: real
  total_devices :: nat

record metrics_collector =
  device_metrics :: "(string, device_entry) pydict"
  system_metrics :: system_metrics
  history_size :: nat
  message_history :: "(real \<times> int) deque"
  error_history :: "(real \<times> int) deque"
  start_time :: real
  last_update :: real
  mc_events :: "event list"

record historical_data =
  hist_messages :: "(real \<times> int) list"
  hist_errors :: "(real \<times> int) list"

record metrics_export =
  exp_system_metrics :: system_report
  exp_device_metrics :: "(string, device_entry) pydict"
  exp_historical_data :: historical_data
  export_timestamp :: real

text \<open>The factory of the \<open>defaultdict\<close> in \<open>__init__\<close>.\<close>

definition default_entry :: device_entry where
  "default_entry =
     \<lparr>m_message_count = 0, m_error_count = 0, m_last_message_time = None,
      m_connection_status = ''disconnected'', m_simulation_status = ''stopped''\<rparr>"

definition zero_system_metrics :: system_metrics where
  "zero_system_metrics =
     \<lparr>total_messages = 0, total_errors = 0, messages_per_second = 0,
      active_devices = 0, connected_devices = 0\<rparr>"

text \<open>
  \<open>self.device_metrics[device_id]\<close> on the \<open>defaultdict\<close>: the entry under the key, and
  the dictionary, which has gained the default entry when the key was missing.
\<close>

definition dd_getitem ::
  "string \<Rightarrow> (string, device_entry) pydict \<Rightarrow> device_entry \<times> (string, device_entry) pydict" where
  "dd_getitem d dm =
     (case map_of dm d of
        Some e \<Rightarrow> (e, dm)
      | None \<Rightarrow> (default_entry, dm @ [(d, default_entry)]))"

text \<open>\<open>self.device_metrics[device_id][field] = ...\<close>: look up (inserting), then mutate the entry.\<close>

definition dd_modify ::
  "string \<Rightarrow> (device_entry \<Rightarrow> device_entry) \<Rightarrow> (string, device_entry) pydict
     \<Rightarrow> (string, device_entry) pydict" where
  "dd_modify d f dm = (case dd_getitem d dm of (e, dm') \<Rightarrow> dict_setitem d (f e) dm')"

definition MetricsCollector_init :: "real \<Rightarrow> metrics_collector" where
  "MetricsCollector_init now =
     \<lparr>device_metrics = [],
      system_metrics = zero_system_metrics,
      history_size = 24 * 60,
      message_history = deque_new (24 * 60),
      error_history = deque_new (24 * 60),
      start_time = now,
      last_update = now,
      mc_events = []\<rparr>"

definition update_rates :: "real \<Rightarrow> metrics_collector \<Rightarrow> metrics_collector" where
  "update_rates now s =
     (let time_diff = now - last_update s
      in if time_diff \<ge> 1 then
           (let one_minute_ago = now - 60;
                recent_messages =
                  map snd (filter (\<lambda>(ts, c). ts \<ge> one_minute_ago) (items (message_history s)))
            in s\<lparr>system_metrics :=
                    (system_metrics s)\<lparr>messages_per_second := real_of_int (sum_list recent_messages) / 60\<rparr>,
                  last_update := now\<rparr>)
         else s)"

definition record_message_sent ::
  "string \<Rightarrow> (string, pyval) pydict \<Rightarrow> real \<Rightarrow> metrics_collector \<Rightarrow> metrics_collector" where
  "record_message_sent device_id message_data now s =
     (let s1 = s\<lparr>device_metrics :=
                   dd_modify device_id (\<lambda>e. e\<lparr>m_message_count := m_message_count e + 1\<rparr>)
                     (device_metrics s)\<rparr>;
          s2 = s1\<lparr>device_metrics :=
                    dd_modify device_id (\<lambda>e. e\<lparr>m_last_message_time := Some now\<rparr>)
                      (device_metrics s1)\<rparr>;
          s3 = s2\<lparr>system_metrics :=
                    (system_metrics s2)\<lparr>total_messages := total_messages (system_metrics s2) + 1\<rparr>\<rparr>;
          s4 = s3\<lparr>message_history := deque_append (now, 1) (message_history s3)\<rparr>;
          s5 = update_rates now s4
      in s5\<lparr>mc_events := mc_events s5 @ [METRICS_UPDATED device_id ''message_sent'' now]\<rparr>)"

definition record_message_error ::
  "string \<Rightarrow> (string, pyval) pydict \<Rightarrow> real \<Rightarrow> metrics_collector \<Rightarrow> metrics_collector" where
  "record_message_error device_id error_data now s =
     (let s1 = s\<lparr>device_metrics :=
                   dd_modify device_id (\<lambda>e. e\<lparr>m_error_count := m_error_count e + 1\<rparr>)
                     (device_metrics s)\<rparr>;
          s2 = s1\<lparr>system_metrics :=
                    (system_metrics s1)\<lparr>total_errors := total_errors (system_metrics s1) + 1\<rparr>\<rparr>;
          s3 = s2\<lparr>error_history := deque_append (now, 1) (error_history s2)\<rparr>
      in s3\<lparr>mc_events := mc_events s3 @ [METRICS_UPDATED device_id ''message_error'' now]\<rparr>)"

text \<open>
  \<open>status_data\<close> is a dictionary; only the truthiness of its values is read
  (\<open>status_data.get("connected", False)\<close>).
\<close>

definition update_device_status ::
  "string \<Rightarrow> (string, pyval) pydict \<Rightarrow> metrics_collector \<Rightarrow> metrics_collector" where
  "update_device_status device_id status_data s =
     (case dd_getitem device_id (device_metrics s) of (metrics, dm1) \<Rightarrow>
        (let old_connected = (m_connection_status metrics = ''connected'');
             old_simulating = (m_simulation_status metrics = ''running'');
             metrics' = metrics
               \<lparr>m_connection_status :=
                  (if truthy (dict_get status_data ''connected'' (PBool False))
                   then ''connected'' else ''disconnected''),
                m_simulation_status :=
                  (if truthy (dict_get status_data ''simulating'' (PBool False))
                   then ''running'' else ''stopped'')\<rparr>;
             new_connected = (m_connection_status metrics' = ''connected'');
             new_simulating = (m_simulation_status metrics' = ''running'');
             sm = system_metrics s;
             sm1 = (if new_connected \<noteq> old_connected then
                      (if new_connected
                       then sm\<lparr>connected_devices := connected_devices sm + 1\<rparr>
                       else sm\<lparr>connected_devices := connected_devices sm - 1\<rparr>)
                    else sm);
             sm2 = (if new_simulating \<noteq> old_simulating then
                      (if new_simulating
                       then sm1\<lparr>active_devices := active_devices sm1 + 1\<rparr>
                       else sm1\<lparr>active_devices := active_devices sm1 - 1\<rparr>)
                    else sm1)
         in s\<lparr>device_metrics := dict_setitem device_id metrics' dm1, system_metrics := sm2\<rparr>))"

definition get_device_metrics ::
  "string \<Rightarrow> metrics_collector \<Rightarrow> device_entry \<times> metrics_collector" where
  "get_device_metrics device_id s =
     (case dd_getitem device_id (device_metrics s) of (e, dm') \<Rightarrow> (e, s\<lparr>device_metrics := dm'\<rparr>))"

definition get_system_metrics :: "real \<Rightarrow> metrics_collector \<Rightarrow> system_report" where
  "get_system_metrics now s =
     \<lparr>total_messages = total_messages (system_metrics s),
      total_errors = total_errors (system_metrics s),
      messages_per_second = messages_per_second (system_metrics s),
      active_devices = active_devices (system_metrics s),
      connected_devices = connected_devices (system_metrics s),
      uptime_seconds = now - start_time s,
      total_devices = length (device_metrics s)\<rparr>"

definition get_historical_data :: "real \<Rightarrow> real \<Rightarrow> metrics_collector \<Rightarrow> historical_data" where
  "get_historical_data hours now s =
     (let cutoff_time = now - hours * 3600
      in \<lparr>hist_messages = filter (\<lambda>(ts, c). ts \<ge> cutoff_time) (items (message_history s)),
          hist_errors = filter (\<lambda>(ts, c). ts \<ge> cutoff_time) (items (error_history s))\<rparr>)"

definition export_metrics :: "real \<Rightarrow> metrics_collector \<Rightarrow> metrics_export" where
  "export_metrics now s =
     \<lparr>exp_system_metrics = get_system_metrics now s,
      exp_device_metrics = device_metrics s,
      exp_historical_data = get_historical_data 24 now s,
      export_timestamp = now\<rparr>"

definition reset_metrics :: "real \<Rightarrow> metrics_collector \<Rightarrow> metrics_collector" where
  "reset_metrics now s =
     s\<lparr>device_metrics := [],
       system_metrics := zero_system_metrics,
       message_history := deque_clear (message_history s),
       error_history := deque_clear (error_history s),
       start_time := now\<rparr>"

text \<open>The calls a client can make on a collector, and a run of them in order.\<close>

datatype mc_call =
    RecordMessageSent string "(string, pyval) pydict" real
  | RecordMessageError string "(string, pyval) pydict" real
  | UpdateDeviceStatus string "(string, pyval) pydict"
  | GetDeviceMetrics string
  | ResetMetrics real

fun mc_step :: "metrics_collector \<Rightarrow> mc_call \<Rightarrow> metrics_collector" where
  "mc_step s (RecordMessageSent d p t) = record_message_sent d p t s"
| "mc_step s (RecordMessageError d p t) = record_message_error d p t s"
| "mc_step s (UpdateDeviceStatus d st) = update_device_status d st s"
| "mc_step s (GetDeviceMetrics d) = snd (get_device_metrics d s)"
| "mc_step s (ResetMetrics t) = reset_metrics t s"

definition mc_run :: "mc_call list \<Rightarrow> metrics_collector \<Rightarrow> metrics_collector" where
  "mc_run calls s = foldl mc_step s calls"

text \<open>The number of per-device entries in a given connection or simulation state.\<close>

definition count_connected :: "(string, device_entry) pydict \<Rightarrow> int" where
  "count_connected dm = int (length (filter (\<lambda>(k, e). m_connection_status e = ''connected'') dm))"

definition count_running :: "(string, device_entry) pydict \<Rightarrow> int" where
  "count_running dm = int (length (filter (\<lambda>(k, e). m_simulation_status e = ''running'') dm))"

definition counters_consistent :: "metrics_collector \<Rightarrow> bool" where
  "counters_consistent s =
     (connected_devices (system_metrics s) = count_connected (device_metrics s) \<and>
      active_devices (system_metrics s) = count_running (device_metrics s))"

section \<open>azure\_integration/message\_generator.py\<close>

text \<open>
  What a call draws from outside the program: the clock, \<open>uuid\<close>, \<open>random\<close>, \<open>faker\<close>,
  and the Python built-ins whose results are not computed here (\<open>str.lower\<close>, \<open>str()\<close>
  of a value that is not a string, \<open>int()\<close> of a string, which is \<open>None\<close> where Python
  raises \<open>ValueError\<close>). One such environment serves one field evaluation.
\<close>

record pyenv =
  now_iso :: string
  uuid4 :: string
  choice_bool :: bool
  choice_status :: nat
  uniform :: "real \<Rightarrow> real \<Rightarrow> real"
  gauss :: "real \<Rightarrow> real \<Rightarrow> real"
  randint :: "int \<Rightarrow> int \<Rightarrow> int"
  faker_name :: string
  faker_address :: string
  faker_word :: string
  faker_latitude :: real
  faker_longitude :: real
  str_lower :: "string \<Rightarrow> string"
  str_of_value :: "pyval \<Rightarrow> string"
  int_of_str :: "string \<Rightarrow> int option"

datatype pyexn = TypeError | ValueError

text \<open>
  Python's arithmetic on numbers: \<open>+\<close>, \<open>*\<close> and \<open>/\<close>, exact on ints and correctly
  rounded on floats, and \<open>math.sin\<close>. A float's result is the double nearest the exact
  one, which this theory does not compute: every function modelling code that does
  arithmetic takes the operations as its parameter \<open>A\<close>, applied to the exact values
  of the operands. Comparisons of numbers are exact and need no parameter; so is the
  conversion of the step counter, an int far below \<open>2 ^ 53\<close>, to a float.
\<close>

record pyfloat =
  fl_add :: "real \<Rightarrow> real \<Rightarrow> real"
  fl_mul :: "real \<Rightarrow> real \<Rightarrow> real"
  fl_div :: "real \<Rightarrow> real \<Rightarrow> real"
  fl_sin :: "real \<Rightarrow> real"

text \<open>The values of the float literal \<open>0.1\<close> and of \<open>math.pi\<close>, which are doubles.\<close>

definition double_0_1 :: real where
  "double_0_1 = 3602879701896397 / 36028797018963968"

definition math_pi :: real where
  "math_pi = 884279719003555 / 281474976710656"

text \<open>\<open>x or d\<close> on an optional number, on a number and on any value.\<close>

definition opt_or :: "real option \<Rightarrow> real \<Rightarrow> real" where
  "opt_or x d = (case x of None \<Rightarrow> d | Some r \<Rightarrow> (if r \<noteq> 0 then r else d))"

definition num_or :: "real \<Rightarrow> real \<Rightarrow> real" where
  "num_or x d = (if x \<noteq> 0 then x else d)"

definition val_or :: "pyval \<Rightarrow> pyval \<Rightarrow> pyval" where
  "val_or x d = (if truthy x then x else d)"

text \<open>\<open>int(x)\<close> truncates towards zero; \<open>round(x, 2)\<close> rounds half to even at two decimals.\<close>

definition trunc :: "real \<Rightarrow> int" where
  "trunc r = (if r \<ge> 0 then \<lfloor>r\<rfloor> else \<lceil>r\<rceil>)"

definition round2 :: "real \<Rightarrow> real" where
  "round2 r =
     (let y = r * 100; f = \<lfloor>y\<rfloor>; d = y - of_int f
      in of_int (if d < 1 / 2 then f else if d > 1 / 2 then f + 1
                 else if even f then f else f + 1) / 100)"

fun py_int :: "pyenv \<Rightarrow> pyval \<Rightarrow> pyexn + pyval" where
  "py_int env (PNum r) = Inr (PNum (of_int (trunc r)))"
| "py_int env (PBool b) = Inr (PNum (if b then 1 else 0))"
| "py_int env (PStr s) =
     (case int_of_str env s of Some i \<Rightarrow> Inr (PNum (of_int i)) | None \<Rightarrow> Inl ValueError)"
| "py_int env PNone = Inl TypeError"
| "py_int env (PLocation la lo) = Inl TypeError"

fun py_round2 :: "pyval \<Rightarrow> pyexn + pyval" where
  "py_round2 (PNum r) = Inr (PNum (round2 r))"
| "py_round2 (PBool b) = Inr (PNum (if b then 1 else 0))"
| "py_round2 (PStr s) = Inl TypeError"
| "py_round2 PNone = Inl TypeError"
| "py_round2 (PLocation la lo) = Inl TypeError"

definition py_str :: "pyenv \<Rightarrow> pyval \<Rightarrow> string" where
  "py_str env v = (case v of PStr s \<Rightarrow> s | _ \<Rightarrow> str_of_value env v)"

text \<open>Decimal digits of an integer, as an f-string prints it.\<close>

fun str_of_nat :: "nat \<Rightarrow> string" where
  "str_of_nat n =
     (if n < 10 then [''0123456789'' ! n]
      else str_of_nat (n div 10) @ [''0123456789'' ! (n mod 10)])"

declare str_of_nat.simps [simp del]

definition str_of_int :: "int \<Rightarrow> string" where
  "str_of_int i = (if i < 0 then ''-'' @ str_of_nat (nat (- i)) else str_of_nat (nat i))"

datatype DataPattern = CONSTANT | RANDOM | SINE_WAVE | LINEAR | GAUSSIAN

record FieldConfig =
  name :: string
  data_type :: string
  pattern :: DataPattern
  min_value :: "real option"
  max_value :: "real option"
  constant_value :: pyval
  step_size :: real
  amplitude :: real
  frequency :: real
  mean :: real
  std_dev :: real

text \<open>The constructor with the dataclass's defaults.\<close>

definition FieldConfig_new :: "string \<Rightarrow> string \<Rightarrow> DataPattern \<Rightarrow> FieldConfig" where
  "FieldConfig_new n ty p =
     \<lparr>name = n, data_type = ty, pattern = p, min_value = None, max_value = None,
      constant_value = PNone, step_size = double_0_1, amplitude = 1, frequency = 1,
      mean = 0, std_dev = 1\<rparr>"

text \<open>\<open>has_faker\<close>: whether \<open>self._faker\<close> is set, that is whether \<open>faker\<close> could be imported.\<close>

record MessageTemplate =
  tpl_name :: string
  description :: string
  tpl_fields :: "FieldConfig list"
  step_counter :: int
  has_faker :: bool

definition MessageTemplate_init :: "bool \<Rightarrow> string \<Rightarrow> string \<Rightarrow> MessageTemplate" where
  "MessageTemplate_init faker_available n d =
     \<lparr>tpl_name = n, description = d, tpl_fields = [], step_counter = 0,
      has_faker = faker_available\<rparr>"

definition add_field :: "FieldConfig \<Rightarrow> MessageTemplate \<Rightarrow> MessageTemplate" where
  "add_field field_config t = t\<lparr>tpl_fields := tpl_fields t @ [field_config]\<rparr>"

definition generate_location :: "pyenv \<Rightarrow> MessageTemplate \<Rightarrow> pyval" where
  "generate_location env t =
     (if has_faker t then PLocation (faker_latitude env) (faker_longitude env)
      else PLocation (uniform env (- 90) 90) (uniform env (- 180) 180))"

definition generate_string_value :: "pyenv \<Rightarrow> FieldConfig \<Rightarrow> MessageTemplate \<Rightarrow> string" where
  "generate_string_value env field t =
     (if pattern field = CONSTANT then py_str env (val_or (constant_value field) (PStr ''''))
      else if pattern field = RANDOM then
        (if has_faker t then
           (if str_lower env (name field) \<in> set [''name'', ''device_name''] then faker_name env
            else if str_lower env (name field) \<in> set [''location'', ''address''] then faker_address env
            else if str_lower env (name field) \<in> set [''status'', ''state'']
              then [''active'', ''inactive'', ''warning'', ''error''] ! (choice_status env mod 4)
            else faker_word env)
         else ''value_'' @ str_of_int (randint env 1 1000))
      else name field @ ''_'' @ str_of_int (step_counter t))"

text \<open>
  The value before the final conversion, with the template as the branch leaves it:
  only the linear branch writes the step counter.
\<close>

definition numeric_raw ::
  "pyfloat \<Rightarrow> pyenv \<Rightarrow> FieldConfig \<Rightarrow> MessageTemplate \<Rightarrow> pyval \<times> MessageTemplate" where
  "numeric_raw A env field t =
     (case pattern field of
        CONSTANT \<Rightarrow> (val_or (constant_value field) (PNum 0), t)
      | RANDOM \<Rightarrow>
          (let min_val = opt_or (min_value field) 0;
               max_val = opt_or (max_value field) 100
           in (PNum (uniform env min_val max_val), t))
      | SINE_WAVE \<Rightarrow>
          (let amplitude' = num_or (amplitude field) 1;
               frequency' = num_or (frequency field) 1;
               offset = num_or (mean field) 0
           in (PNum (fl_add A offset
                       (fl_mul A amplitude'
                          (fl_sin A
                             (fl_div A
                                (fl_mul A (fl_mul A (fl_mul A 2 math_pi) frequency')
                                   (of_int (step_counter t)))
                                100)))), t))
      | LINEAR \<Rightarrow>
          (let start_value = opt_or (min_value field) 0;
               step = num_or (step_size field) double_0_1;
               v = fl_add A start_value (fl_mul A step (of_int (step_counter t)))
           in if (case max_value field of None \<Rightarrow> False | Some m \<Rightarrow> m \<noteq> 0 \<and> v > m)
              then (PNum (opt_or (min_value field) 0), t\<lparr>step_counter := 0\<rparr>)
              else (PNum v, t))
      | GAUSSIAN \<Rightarrow>
          (let mean' = num_or (mean field) 0;
               std_dev' = num_or (std_dev field) 1;
               v = gauss env mean' std_dev';
               v1 = (case min_value field of None \<Rightarrow> v | Some lo \<Rightarrow> max v lo);
               v2 = (case max_value field of None \<Rightarrow> v1 | Some hi \<Rightarrow> min v1 hi)
           in (PNum v2, t)))"

definition generate_numeric_value ::
  "pyfloat \<Rightarrow> pyenv \<Rightarrow> FieldConfig \<Rightarrow> MessageTemplate
     \<Rightarrow> (pyexn + pyval) \<times> MessageTemplate" where
  "generate_numeric_value A env field t =
     (case numeric_raw A env field t of (v, t') \<Rightarrow>
        (if data_type field = ''int'' then (py_int env v, t') else (py_round2 v, t')))"

text \<open>An exception raised while a field is generated is logged and the value is \<open>None\<close>.\<close>

definition generate_field_value ::
  "pyfloat \<Rightarrow> pyenv \<Rightarrow> FieldConfig \<Rightarrow> MessageTemplate \<Rightarrow> pyval \<times> MessageTemplate" where
  "generate_field_value A env field t =
     (if data_type field = ''timestamp'' then (PStr (now_iso env), t)
      else if data_type field = ''uuid'' then (PStr (uuid4 env), t)
      else if data_type field = ''location'' then (generate_location env t, t)
      else if data_type field = ''bool'' then
        (if pattern field = CONSTANT then (PBool (truthy (constant_value field)), t)
         else (PBool (choice_bool env), t))
      else if data_type field = ''string'' then (PStr (generate_string_value env field t), t)
      else if data_type field \<in> set [''int'', ''float''] then
        (case generate_numeric_value A env field t of
           (Inr v, t') \<Rightarrow> (v, t')
         | (Inl e, t') \<Rightarrow> (PNone, t'))
      else (PNone, t))"

text \<open>
  The loop of \<open>generate_message\<close> over the fields, in declaration order. \<open>E i\<close> is the
  environment of the \<open>i\<close>-th field evaluation; the one after the last field gives the
  time of the injected timestamp.
\<close>

fun generate_fields ::
  "pyfloat \<Rightarrow> (nat \<Rightarrow> pyenv) \<Rightarrow> nat \<Rightarrow> FieldConfig list \<Rightarrow> (string, pyval) pydict \<Rightarrow> MessageTemplate
     \<Rightarrow> (string, pyval) pydict \<times> MessageTemplate" where
  "generate_fields A E i [] message t = (message, t)"
| "generate_fields A E i (field # rest) message t =
     (case generate_field_value A (E i) field t of (v, t') \<Rightarrow>
        generate_fields A E (Suc i) rest (dict_setitem (name field) v message) t')"

definition generate_message ::
  "pyfloat \<Rightarrow> (nat \<Rightarrow> pyenv) \<Rightarrow> MessageTemplate
     \<Rightarrow> (string, pyval) pydict \<times> MessageTemplate" where
  "generate_message A E t =
     (case generate_fields A E 0 (tpl_fields t) [] t of (message, t') \<Rightarrow>
        (let message' =
               (if map_of message ''timestamp'' = None
                then dict_setitem ''timestamp'' (PStr (now_iso (E (length (tpl_fields t))))) message
                else message)
         in (message', t'\<lparr>step_counter := step_counter t' + 1\<rparr>)))"

record MessageGenerator =
  templates :: "(string, MessageTemplate) pydict"

definition temperature_sensor :: "bool \<Rightarrow> MessageTemplate" where
  "temperature_sensor faker_available =
     add_field
       ((FieldConfig_new ''humidity'' ''float'' GAUSSIAN)
          \<lparr>min_value := Some 30, max_value := Some 80, mean := 55, std_dev := 10\<rparr>)
       (add_field
          ((FieldConfig_new ''temperature'' ''float'' SINE_WAVE)
             \<lparr>min_value := Some 15, max_value := Some 35, amplitude := 10,
              frequency := double_0_1, mean := 45 / 2\<rparr>)
          (MessageTemplate_init faker_available ''temperature_sensor''
             ''Temperature and humidity sensor''))"

definition motion_sensor :: "bool \<Rightarrow> MessageTemplate" where
  "motion_sensor faker_available =
     add_field
       ((FieldConfig_new ''confidence'' ''float'' RANDOM)
          \<lparr>min_value := Some 0, max_value := Some 1\<rparr>)
       (add_field (FieldConfig_new ''motion_detected'' ''bool'' RANDOM)
          (MessageTemplate_init faker_available ''motion_sensor'' ''Motion detection sensor''))"

definition MessageGenerator_init :: "bool \<Rightarrow> MessageGenerator" where
  "MessageGenerator_init faker_available =
     \<lparr>templates =
        dict_setitem ''motion_sensor'' (motion_sensor faker_available)
          (dict_setitem ''temperature_sensor'' (temperature_sensor faker_available) [])\<rparr>"

definition get_template :: "string \<Rightarrow> MessageGenerator \<Rightarrow> MessageTemplate option" where
  "get_template n g = map_of (templates g) n"

text \<open>
  \<open>MessageGenerator.generate_message\<close>: \<open>None\<close> for a name the generator does not know.
  The template object is mutated in place, so the dictionary holds the advanced template.
\<close>

definition MessageGenerator_generate_message ::
  "pyfloat \<Rightarrow> (nat \<Rightarrow> pyenv) \<Rightarrow> string \<Rightarrow> MessageGenerator
     \<Rightarrow> (string, pyval) pydict option \<times> MessageGenerator" where
  "MessageGenerator_generate_message A E template_name' g =
     (case get_template template_name' g of
        Some t \<Rightarrow>
          (case generate_message A E t of (message, t') \<Rightarrow>
             (Some message, g\<lparr>templates := dict_setitem template_name' t' (templates g)\<rparr>))
      | None \<Rightarrow> (None, g))"

section \<open>azure\_integration/device\_client.py\<close>

record DeviceConfig =
  device_id :: string
  connection_string :: string
  protocol :: string
  auto_reconnect :: bool
  message_interval :: int
  template_name :: string

text \<open>
  The fields of \<open>VirtualDevice\<close> that sending reads or writes. \<open>has_client\<close> says whether
  \<open>self.client\<close> is set; the device's emitted events are logged in \<open>dev_events\<close>.
\<close>

record VirtualDevice =
  dev_config :: DeviceConfig
  has_client :: bool
  is_connected :: bool
  is_simulating :: bool
  dev_message_count :: int
  dev_error_count :: int
  dev_last_message_time :: "real option"
  dev_events :: "event list"

definition VirtualDevice_init :: "DeviceConfig \<Rightarrow> VirtualDevice" where
  "VirtualDevice_init c =
     \<lparr>dev_config = c, has_client = False, is_connected = False, is_simulating = False,
      dev_message_count = 0, dev_error_count = 0, dev_last_message_time = None,
      dev_events = []\<rparr>"

text \<open>
  What one send attempt draws from outside: the environments of the message generated
  for it, whether the SDK path (\<open>json.dumps\<close>, \<open>Message\<close>, \<open>client.send_message\<close>)
  raises, and the clock.
\<close>

record send_env =
  gen_env :: "nat \<Rightarrow> pyenv"
  send_raises :: bool
  send_now :: real

text \<open>
  \<open>VirtualDevice.send_message\<close>. \<open>azure_available\<close> is the module's
  \<open>AZURE_AVAILABLE\<close>: without the SDK a send is simulated and succeeds.
\<close>

definition send_message ::
  "bool \<Rightarrow> send_env \<Rightarrow> (string, pyval) pydict \<Rightarrow> VirtualDevice \<Rightarrow> bool \<times> VirtualDevice" where
  "send_message azure_available env message_data dev =
     (if \<not> azure_available then
        (True, dev\<lparr>dev_message_count := dev_message_count dev + 1,
                   dev_last_message_time := Some (send_now env),
                   dev_events := dev_events dev @
                     [MESSAGE_SENT (device_id (dev_config dev)) message_data (send_now env)]\<rparr>)
      else if \<not> has_client dev \<or> \<not> is_connected dev then (False, dev)
      else if send_raises env then
        (False, dev\<lparr>dev_error_count := dev_error_count dev + 1,
                    dev_events := dev_events dev @
                      [MESSAGE_FAILED (device_id (dev_config dev)) (send_now env)]\<rparr>)
      else
        (True, dev\<lparr>dev_message_count := dev_message_count dev + 1,
                   dev_last_message_time := Some (send_now env),
                   dev_events := dev_events dev @
                     [MESSAGE_SENT (device_id (dev_config dev)) message_data (send_now env)]\<rparr>))"

section \<open>azure\_integration/simulation\_engine.py\<close>

record SimulationConfig =
  interval :: int
  jitter :: real
  burst_mode :: bool
  burst_count :: int
  burst_interval :: int
  max_messages :: "int option"

definition SimulationConfig_default :: SimulationConfig where
  "SimulationConfig_default =
     \<lparr>interval = 10, jitter = double_0_1, burst_mode = False, burst_count = 5,
      burst_interval = 1, max_messages = None\<rparr>"

record DeviceSimulation =
  device :: VirtualDevice
  sim_config :: SimulationConfig
  is_running :: bool
  message_count :: int
  sim_start_time :: "real option"
  message_generator :: MessageGenerator
  sim_events :: "event list"

definition DeviceSimulation_init ::
  "bool \<Rightarrow> VirtualDevice \<Rightarrow> SimulationConfig \<Rightarrow> DeviceSimulation" where
  "DeviceSimulation_init faker_available dev c =
     \<lparr>device = dev, sim_config = c, is_running = False, message_count = 0,
      sim_start_time = None, message_generator = MessageGenerator_init faker_available,
      sim_events = []\<rparr>"

text \<open>\<open>start\<close> marks the simulation running and schedules the loop, which runs below.\<close>

definition start :: "real \<Rightarrow> DeviceSimulation \<Rightarrow> DeviceSimulation" where
  "start now s =
     (if is_running s then s
      else s\<lparr>is_running := True, sim_start_time := Some now,
             device := (device s)\<lparr>is_simulating := True\<rparr>,
             sim_events := sim_events s @ [SIMULATION_STARTED (device_id (dev_config (device s)))]\<rparr>)"

definition stop :: "DeviceSimulation \<Rightarrow> DeviceSimulation" where
  "stop s =
     (if \<not> is_running s then s
      else s\<lparr>is_running := False,
             device := (device s)\<lparr>is_simulating := False\<rparr>,
             sim_events := sim_events s @ [SIMULATION_STOPPED (device_id (dev_config (device s)))]\<rparr>)"

text \<open>
  \<open>_send_single_message\<close>: generate a message for the device's template; when there is
  one (a non-empty dictionary), send it and count a success.
\<close>

definition send_single_message ::
  "bool \<Rightarrow> pyfloat \<Rightarrow> send_env \<Rightarrow> DeviceSimulation \<Rightarrow> DeviceSimulation" where
  "send_single_message azure_available A env s =
     (case MessageGenerator_generate_message A (gen_env env)
             (template_name (dev_config (device s))) (message_generator s) of
        (message, g') \<Rightarrow>
          (let s1 = s\<lparr>message_generator := g'\<rparr>
           in case message of
                None \<Rightarrow> s1
              | Some m \<Rightarrow>
                  (if m \<noteq> [] then
                     (case send_message azure_available env m (device s1) of
                        (success, dev') \<Rightarrow>
                          (let s2 = s1\<lparr>device := dev'\<rparr>
                           in if success then s2\<lparr>message_count := message_count s2 + 1\<rparr> else s2))
                   else s1)))"

text \<open>
  \<open>_send_burst_messages\<close>: the same three steps \<open>burst_count\<close> times, the \<open>i\<close>-th with the
  environment \<open>E i\<close>. The sleep between two members of a burst changes no state.
\<close>

fun burst_loop ::
  "bool \<Rightarrow> pyfloat \<Rightarrow> (nat \<Rightarrow> send_env) \<Rightarrow> nat \<Rightarrow> nat \<Rightarrow> DeviceSimulation
     \<Rightarrow> DeviceSimulation" where
  "burst_loop azure_available A E i 0 s = s"
| "burst_loop azure_available A E i (Suc k) s =
     burst_loop azure_available A E (Suc i) k (send_single_message azure_available A (E i) s)"

definition send_burst_messages ::
  "bool \<Rightarrow> pyfloat \<Rightarrow> (nat \<Rightarrow> send_env) \<Rightarrow> DeviceSimulation \<Rightarrow> DeviceSimulation" where
  "send_burst_messages azure_available A E s =
     burst_loop azure_available A E 0 (nat (burst_count (sim_config s))) s"

text \<open>
  \<open>_simulation_loop\<close>, run on its own: no other task calls \<open>stop\<close> or cancels it, and the
  sleep at the end of an iteration (the interval with its jitter, at least 0.1 s)
  changes no state. The first argument bounds the number of iterations: \<open>None\<close> means
  that the loop is still running after that many. \<open>E\<close> is the stream of the send
  attempts' environments; an iteration uses as many as it makes attempts.
\<close>

definition limit_reached :: "DeviceSimulation \<Rightarrow> bool" where
  "limit_reached s =
     (case max_messages (sim_config s) of
        None \<Rightarrow> False
      | Some m \<Rightarrow> m \<noteq> 0 \<and> message_count s \<ge> m)"

definition loop_body ::
  "bool \<Rightarrow> pyfloat \<Rightarrow> (nat \<Rightarrow> send_env) \<Rightarrow> DeviceSimulation \<Rightarrow> DeviceSimulation" where
  "loop_body azure_available A E s =
     (if burst_mode (sim_config s) then send_burst_messages azure_available A E s
      else send_single_message azure_available A (E 0) s)"

definition attempts_per_iteration :: "DeviceSimulation \<Rightarrow> nat" where
  "attempts_per_iteration s =
     (if burst_mode (sim_config s) then nat (burst_count (sim_config s)) else 1)"

definition loop_finally :: "DeviceSimulation \<Rightarrow> DeviceSimulation" where
  "loop_finally s = s\<lparr>is_running := False, device := (device s)\<lparr>is_simulating := False\<rparr>\<rparr>"

fun simulation_loop ::
  "nat \<Rightarrow> bool \<Rightarrow> pyfloat \<Rightarrow> (nat \<Rightarrow> send_env) \<Rightarrow> DeviceSimulation
     \<Rightarrow> DeviceSimulation option" where
  "simulation_loop 0 azure_available A E s = None"
| "simulation_loop (Suc n) azure_available A E s =
     (if is_running s then
        (if limit_reached s then Some (loop_finally s)
         else simulation_loop n azure_available A (\<lambda>i. E (i + attempts_per_iteration s))
                (loop_body azure_available A E s))
      else Some (loop_finally s))"

text \<open>The state at the head of the loop after \<open>k\<close> iterations, or where the loop left it.\<close>

fun loop_state ::
  "nat \<Rightarrow> bool \<Rightarrow> pyfloat \<Rightarrow> (nat \<Rightarrow> send_env) \<Rightarrow> DeviceSimulation \<Rightarrow> DeviceSimulation" where
  "loop_state 0 azure_available A E s = s"
| "loop_state (Suc k) azure_available A E s =
     (if is_running s \<and> \<not> limit_reached s
      then loop_state k azure_available A (\<lambda>i. E (i + attempts_per_iteration s))
             (loop_body azure_available A E s)
      else s)"

section \<open>Notions used in the statements\<close>

fun is_sent :: "mc_call \<Rightarrow> bool" where
  "is_sent (RecordMessageSent d p t) = True"
| "is_sent c = False"

fun is_error :: "mc_call \<Rightarrow> bool" where
  "is_error (RecordMessageError d p t) = True"
| "is_error c = False"

definition log_step_sent :: "(real \<times> int) list \<Rightarrow> mc_call \<Rightarrow> (real \<times> int) list" where
  "log_step_sent l c =
     (case c of RecordMessageSent d p t \<Rightarrow> l @ [(t, 1)] | ResetMetrics t \<Rightarrow> [] | _ \<Rightarrow> l)"

definition sent_log :: "mc_call list \<Rightarrow> (real \<times> int) list" where
  "sent_log calls = foldl log_step_sent [] calls"

definition log_step_error :: "(real \<times> int) list \<Rightarrow> mc_call \<Rightarrow> (real \<times> int) list" where
  "log_step_error l c =
     (case c of RecordMessageError d p t \<Rightarrow> l @ [(t, 1)] | ResetMetrics t \<Rightarrow> [] | _ \<Rightarrow> l)"

definition error_log :: "mc_call list \<Rightarrow> (real \<times> int) list" where
  "error_log calls = foldl log_step_error [] calls"

definition window_ok :: "nat \<Rightarrow> 'a deque \<Rightarrow> 'a list \<Rightarrow> bool" where
  "window_ok n q l = (maxlen q = n \<and> items q = drop (length l - n) l)"

text \<open>
  A sample environment and sample arithmetic, for evaluating the generator at concrete
  inputs. The arithmetic is the exact one: it is Python's wherever the operands are
  ints, or floats whose exact result is again a double, which is so at every input
  evaluated below (small integers and halves).
\<close>

definition env0 :: pyenv where
  "env0 =
     \<lparr>now_iso = ''2024-01-01T00:00:00+00:00'',
      uuid4 = ''00000000-0000-4000-8000-000000000000'',
      choice_bool = False, choice_status = 0,
      uniform = (\<lambda>a b. a), gauss = (\<lambda>m sd. m), randint = (\<lambda>a b. a),
      faker_name = ''Ann'', faker_address = ''1 Main St'', faker_word = ''word'',
      faker_latitude = 0, faker_longitude = 0,
      str_lower = (\<lambda>s. s), str_of_value = (\<lambda>v. ''?''), int_of_str = (\<lambda>s. None)\<rparr>"

definition arith0 :: pyfloat where
  "arith0 = \<lparr>fl_add = (\<lambda>a b. a + b), fl_mul = (\<lambda>a b. a * b), fl_div = (\<lambda>a b. a / b),
             fl_sin = sin\<rparr>"

text \<open>The final conversion of a numeric field's value: \<open>int(value)\<close> or \<open>round(value, 2)\<close>.\<close>

definition convert_num :: "FieldConfig \<Rightarrow> real \<Rightarrow> pyval" where
  "convert_num f x = (if data_type f = ''int'' then PNum (of_int (trunc x)) else PNum (round2 x))"

text \<open>
  The running value of a linear field at step counter \<open>c\<close>, as Python computes
  \<open>start_value + (step * self._step_counter)\<close>.
\<close>

definition linear_value :: "pyfloat \<Rightarrow> FieldConfig \<Rightarrow> int \<Rightarrow> real" where
  "linear_value A f c =
     fl_add A (opt_or (min_value f) 0) (fl_mul A (num_or (step_size f) double_0_1) (of_int c))"

text \<open>A field that, evaluated at step counter \<open>c\<close>, takes the wrapping branch.\<close>

definition wraps :: "pyfloat \<Rightarrow> FieldConfig \<Rightarrow> int \<Rightarrow> bool" where
  "wraps A f c =
     (data_type f \<in> set [''int'', ''float''] \<and> pattern f = LINEAR \<and>
      (case max_value f of None \<Rightarrow> False | Some m \<Rightarrow> m \<noteq> 0 \<and> linear_value A f c > m))"

text \<open>The message built by evaluating every field in one and the same template state.\<close>

fun fields_at ::
  "pyfloat \<Rightarrow> (nat \<Rightarrow> pyenv) \<Rightarrow> nat \<Rightarrow> FieldConfig list \<Rightarrow> (string, pyval) pydict
     \<Rightarrow> MessageTemplate \<Rightarrow> (string, pyval) pydict" where
  "fields_at A E i [] message t = message"
| "fields_at A E i (f # rest) message t =
     fields_at A E (Suc i) rest
       (dict_setitem (name f) (fst (generate_field_value A (E i) f t)) message) t"

text \<open>
  A template with a linear field that ramps 0, 1 and wraps at step counter 2, followed
  by a string field whose value shows the step counter it observes.
\<close>

definition ramp_field :: FieldConfig where
  "ramp_field = (FieldConfig_new ''ramp'' ''float'' LINEAR)\<lparr>max_value := Some 1, step_size := 1\<rparr>"

definition label_field :: FieldConfig where
  "label_field = FieldConfig_new ''label'' ''string'' LINEAR"

definition ramp_template :: MessageTemplate where
  "ramp_template =
     (add_field label_field
        (add_field ramp_field (MessageTemplate_init False ''ramp_template'' '''')))
     \<lparr>step_counter := 2\<rparr>"

text \<open>Whether the simulation's own generator has a template of the device's template name.\<close>

definition template_known :: "DeviceSimulation \<Rightarrow> bool" where
  "template_known s =
     (get_template (template_name (dev_config (device s))) (message_generator s) \<noteq> None)"

text \<open>The outcome of \<open>send_message\<close> on a device, in an environment.\<close>

definition send_succeeds :: "bool \<Rightarrow> VirtualDevice \<Rightarrow> send_env \<Rightarrow> bool" where
  "send_succeeds azure_available dev env =
     (if \<not> azure_available then True
      else if \<not> has_client dev \<or> \<not> is_connected dev then False
      else \<not> send_raises env)"

text \<open>The parts of a simulation that no send changes.\<close>

definition same_setup :: "DeviceSimulation \<Rightarrow> DeviceSimulation \<Rightarrow> bool" where
  "same_setup s s' =
     (is_running s' = is_running s \<and> sim_config s' = sim_config s \<and>
      template_known s' = template_known s \<and>
      dev_config (device s') = dev_config (device s) \<and>
      has_client (device s') = has_client (device s) \<and>
      is_connected (device s') = is_connected (device s))"

text \<open>Sample send environments, a sample device configuration and sample simulations.\<close>

definition send_env_ok :: send_env where
  "send_env_ok = \<lparr>gen_env = (\<lambda>i. env0), send_raises = False, send_now = 0\<rparr>"

definition send_env_raising :: send_env where
  "send_env_raising = \<lparr>gen_env = (\<lambda>i. env0), send_raises = True, send_now = 0\<rparr>"

definition sample_config :: "string \<Rightarrow> DeviceConfig" where
  "sample_config tn =
     \<lparr>device_id = ''dev1'', connection_string = ''HostName=h;DeviceId=dev1;SharedAccessKey=k'',
      protocol = ''MQTT'', auto_reconnect = True, message_interval = 10, template_name = tn\<rparr>"

definition capped_config :: SimulationConfig where
  "capped_config = SimulationConfig_default\<lparr>interval := 1, jitter := 0, max_messages := Some 5\<rparr>"

definition sample_simulation :: "string \<Rightarrow> DeviceSimulation" where
  "sample_simulation tn =
     start 0 (DeviceSimulation_init False (VirtualDevice_init (sample_config tn)) capped_config)"

definition connected_simulation :: DeviceSimulation where
  "connected_simulation =
     start 0 (DeviceSimulation_init False
       ((VirtualDevice_init (sample_config ''motion_sensor''))\<lparr>has_client := True, is_connected := True\<rparr>)
       capped_config)"

text \<open>
  Among the first \<open>n\<close> send attempts of the stream \<open>E\<close>: how many succeed on the device,
  and how many raise inside the SDK.
\<close>

definition successes :: "bool \<Rightarrow> VirtualDevice \<Rightarrow> (nat \<Rightarrow> send_env) \<Rightarrow> nat \<Rightarrow> int" where
  "successes azure_available dev E n =
     int (length (filter (\<lambda>j. send_succeeds azure_available dev (E j)) [0..<n]))"

definition raised :: "(nat \<Rightarrow> send_env) \<Rightarrow> nat \<Rightarrow> int" where
  "raised E n = int (length (filter (\<lambda>j. send_raises (E j)) [0..<n]))"

section \<open>Properties of the metrics collector\<close>

lemma dict_setitem_absent:
  "map_of dm d = None \<Longrightarrow> dict_setitem d v dm = dm @ [(d, v)]"
  by (induction dm) (auto split: if_splits)

lemma count_dict_setitem_present:
  "map_of dm d = Some e \<Longrightarrow>
   int (length (filter (\<lambda>(k, x). P x) (dict_setitem d e' dm))) =
   int (length (filter (\<lambda>(k, x). P x) dm)) - (if P e then 1 else 0) + (if P e' then 1 else 0)"
  by (induction dm) (auto split: if_splits)

lemma count_dd_modify:
  assumes "\<And>e. P (f e) = P e" and "\<not> P default_entry"
  shows "int (length (filter (\<lambda>(k, x). P x) (dd_modify d f dm))) =
         int (length (filter (\<lambda>(k, x). P x) dm))"
proof (cases "map_of dm d")
  case None
  have m: "map_of (dm @ [(d, default_entry)]) d = Some default_entry"
    using None by (simp add: map_add_def)
  show ?thesis using None assms count_dict_setitem_present[OF m, of P "f default_entry"]
    by (simp add: dd_modify_def dd_getitem_def)
next
  case (Some e)
  then show ?thesis using assms count_dict_setitem_present[OF Some, of P "f e"]
    by (simp add: dd_modify_def dd_getitem_def)
qed

lemma count_connected_dd_modify:
  "(\<And>e. m_connection_status (f e) = m_connection_status e) \<Longrightarrow>
   count_connected (dd_modify d f dm) = count_connected dm"
  unfolding count_connected_def
  by (rule count_dd_modify) (simp_all add: default_entry_def)

lemma count_running_dd_modify:
  "(\<And>e. m_simulation_status (f e) = m_simulation_status e) \<Longrightarrow>
   count_running (dd_modify d f dm) = count_running dm"
  unfolding count_running_def
  by (rule count_dd_modify) (simp_all add: default_entry_def)

lemma consistent_init: "counters_consistent (MetricsCollector_init t0)"
  by (simp add: counters_consistent_def MetricsCollector_init_def zero_system_metrics_def
      count_connected_def count_running_def)

lemma consistent_reset: "counters_consistent (reset_metrics t s)"
  by (simp add: counters_consistent_def reset_metrics_def zero_system_metrics_def
      count_connected_def count_running_def)

lemma update_rates_frame:
  "device_metrics (update_rates now s) = device_metrics s"
  "connected_devices (system_metrics (update_rates now s)) = connected_devices (system_metrics s)"
  "active_devices (system_metrics (update_rates now s)) = active_devices (system_metrics s)"
  "total_messages (system_metrics (update_rates now s)) = total_messages (system_metrics s)"
  "total_errors (system_metrics (update_rates now s)) = total_errors (system_metrics s)"
  "message_history (update_rates now s) = message_history s"
  "error_history (update_rates now s) = error_history s"
  by (simp_all add: update_rates_def Let_def)

lemma consistent_sent:
  "counters_consistent s \<Longrightarrow> counters_consistent (record_message_sent d p t s)"
  by (simp add: counters_consistent_def record_message_sent_def Let_def update_rates_frame
      count_connected_dd_modify count_running_dd_modify)

lemma consistent_error:
  "counters_consistent s \<Longrightarrow> counters_consistent (record_message_error d p t s)"
  by (simp add: counters_consistent_def record_message_error_def Let_def
      count_connected_dd_modify count_running_dd_modify)

lemma consistent_get:
  "counters_consistent s \<Longrightarrow> counters_consistent (snd (get_device_metrics d s))"
  by (auto simp: counters_consistent_def get_device_metrics_def dd_getitem_def
      count_connected_def count_running_def default_entry_def split: option.splits)

lemma consistent_update:
  assumes "counters_consistent s"
  shows "counters_consistent (update_device_status d st s)"
proof (cases "map_of (device_metrics s) d")
  case None
  have m: "map_of (device_metrics s @ [(d, default_entry)]) d = Some default_entry"
    using None by (simp add: map_add_def)
  show ?thesis using assms None
      count_dict_setitem_present[OF m, of "\<lambda>x. m_connection_status x = ''connected''"]
      count_dict_setitem_present[OF m, of "\<lambda>x. m_simulation_status x = ''running''"]
    by (simp add: counters_consistent_def update_device_status_def dd_getitem_def Let_def
        count_connected_def count_running_def default_entry_def)
next
  case (Some e)
  show ?thesis using assms Some
      count_dict_setitem_present[OF Some, of "\<lambda>x. m_connection_status x = ''connected''"]
      count_dict_setitem_present[OF Some, of "\<lambda>x. m_simulation_status x = ''running''"]
    by (simp add: counters_consistent_def update_device_status_def dd_getitem_def Let_def
        count_connected_def count_running_def)
qed

lemma consistent_step: "counters_consistent s \<Longrightarrow> counters_consistent (mc_step s c)"
  by (cases c) (simp_all add: consistent_sent consistent_error consistent_update consistent_get
      consistent_reset)

lemma consistent_run: "counters_consistent s \<Longrightarrow> counters_consistent (mc_run calls s)"
  unfolding mc_run_def by (induction calls arbitrary: s) (simp_all add: consistent_step)

lemma map_of_dict_setitem: "map_of (dict_setitem k v dm) k = Some v"
  by (induction dm) auto

lemma dict_setitem_same: "map_of dm k = Some v \<Longrightarrow> dict_setitem k v dm = dm"
  by (induction dm) (auto split: if_splits)

lemma update_device_status_entry:
  "map_of (device_metrics (update_device_status d st s)) d =
     Some ((fst (dd_getitem d (device_metrics s)))
       \<lparr>m_connection_status :=
          (if truthy (dict_get st ''connected'' (PBool False)) then ''connected'' else ''disconnected''),
        m_simulation_status :=
          (if truthy (dict_get st ''simulating'' (PBool False)) then ''running'' else ''stopped'')\<rparr>)"
  by (simp add: update_device_status_def Let_def map_of_dict_setitem split: prod.splits)

lemma update_same_status:
  assumes "map_of (device_metrics s) d = Some e"
    and "m_connection_status e =
          (if truthy (dict_get st ''connected'' (PBool False)) then ''connected'' else ''disconnected'')"
    and "m_simulation_status e =
          (if truthy (dict_get st ''simulating'' (PBool False)) then ''running'' else ''stopped'')"
  shows "update_device_status d st s = s"
  using assms
  by (simp add: update_device_status_def dd_getitem_def Let_def dict_setitem_same)

lemma update_twice: "update_device_status d st (update_device_status d st s) = update_device_status d st s"
  by (rule update_same_status[OF update_device_status_entry]) simp_all

lemma window_append:
  assumes "0 < n" and "xs = drop (length l - n) l"
  shows "(let ys = xs @ [x] in if length ys > n then tl ys else ys) =
         drop (length (l @ [x]) - n) (l @ [x])"
proof (cases "length l < n")
  case True
  then show ?thesis using assms by simp
next
  case False
  then have len: "length xs = n" using assms by simp
  have ne: "drop (length l - n) l \<noteq> []" using False assms by simp
  have "tl (xs @ [x]) = tl xs @ [x]" using ne assms by simp
  also have "tl xs = drop (Suc (length l - n)) l"
    using assms by (simp add: drop_Suc tl_drop)
  finally have "tl (xs @ [x]) = drop (Suc (length l - n)) l @ [x]" .
  moreover have "Suc (length l) - n = Suc (length l - n)" using False by simp
  ultimately show ?thesis using len False assms(1) by simp
qed

lemma window_ok_append:
  "0 < n \<Longrightarrow> window_ok n q l \<Longrightarrow> window_ok n (deque_append x q) (l @ [x])"
  using window_append[of n "items q" l x]
  by (simp add: window_ok_def deque_append_def Let_def)

lemma window_ok_clear: "window_ok n q l \<Longrightarrow> window_ok n (deque_clear q) []"
  by (simp add: window_ok_def deque_clear_def)

lemma window_ok_length: "window_ok n q l \<Longrightarrow> length (items q) \<le> n"
  by (simp add: window_ok_def)

lemma history_step:
  assumes "window_ok 1440 (message_history s) l" and "window_ok 1440 (error_history s) l'"
  shows "window_ok 1440 (message_history (mc_step s c)) (log_step_sent l c) \<and>
         window_ok 1440 (error_history (mc_step s c)) (log_step_error l' c)"
proof (cases c)
  case (RecordMessageSent d p t)
  then show ?thesis using assms
    by (simp add: record_message_sent_def Let_def update_rates_frame log_step_sent_def
        log_step_error_def window_ok_append)
next
  case (RecordMessageError d p t)
  then show ?thesis using assms
    by (simp add: record_message_error_def Let_def log_step_sent_def
        log_step_error_def window_ok_append)
next
  case (UpdateDeviceStatus d st)
  then show ?thesis using assms
    by (simp add: update_device_status_def Let_def log_step_sent_def log_step_error_def
        split: prod.splits)
next
  case (GetDeviceMetrics d)
  then show ?thesis using assms
    by (simp add: get_device_metrics_def log_step_sent_def log_step_error_def split: prod.splits)
next
  case (ResetMetrics t)
  then show ?thesis using assms
    by (simp add: reset_metrics_def log_step_sent_def log_step_error_def window_ok_clear)
qed

lemma history_run:
  "window_ok 1440 (message_history s) l \<Longrightarrow> window_ok 1440 (error_history s) l' \<Longrightarrow>
   window_ok 1440 (message_history (foldl mc_step s calls)) (foldl log_step_sent l calls) \<and>
   window_ok 1440 (error_history (foldl mc_step s calls)) (foldl log_step_error l' calls)"
proof (induction calls arbitrary: s l l')
  case Nil
  then show ?case by simp
next
  case (Cons c cs)
  from history_step[OF Cons.prems, of c]
  have a: "window_ok 1440 (message_history (mc_step s c)) (log_step_sent l c)"
    and b: "window_ok 1440 (error_history (mc_step s c)) (log_step_error l' c)"
    by simp_all
  show ?case using Cons.IH[OF a b] by simp
qed

lemma history_init:
  "window_ok 1440 (message_history (MetricsCollector_init t0)) []"
  "window_ok 1440 (error_history (MetricsCollector_init t0)) []"
  by (simp_all add: window_ok_def MetricsCollector_init_def deque_new_def)

text \<open>
  Claim C5. Whatever calls a fresh collector receives, neither history buffer ever
  holds more than 24 * 60 = 1440 entries, and each buffer is exactly the last 1440 (or
  fewer) of the entries appended to it since the last reset, in the order of their
  insertion: an append that would exceed the capacity evicts the oldest entry.
\<close>

theorem history_bounded_fifo:
  "length (items (message_history (mc_run calls (MetricsCollector_init t0)))) \<le> 24 * 60 \<and>
   length (items (error_history (mc_run calls (MetricsCollector_init t0)))) \<le> 24 * 60 \<and>
   items (message_history (mc_run calls (MetricsCollector_init t0))) =
     drop (length (sent_log calls) - 24 * 60) (sent_log calls) \<and>
   items (error_history (mc_run calls (MetricsCollector_init t0))) =
     drop (length (error_log calls) - 24 * 60) (error_log calls)"
proof -
  from history_run[OF history_init(1)[of t0] history_init(2)[of t0], of calls]
  have m: "window_ok 1440 (message_history (mc_run calls (MetricsCollector_init t0))) (sent_log calls)"
    and e: "window_ok 1440 (error_history (mc_run calls (MetricsCollector_init t0))) (error_log calls)"
    by (simp_all add: mc_run_def sent_log_def error_log_def)
  show ?thesis using m e window_ok_length[OF m] window_ok_length[OF e]
    by (simp add: window_ok_def)
qed

lemma totals_step:
  "is_sent c \<or> is_error c \<Longrightarrow>
   total_messages (system_metrics (mc_step s c)) =
     total_messages (system_metrics s) + (if is_sent c then 1 else 0) \<and>
   total_errors (system_metrics (mc_step s c)) =
     total_errors (system_metrics s) + (if is_error c then 1 else 0)"
  by (cases c) (simp_all add: record_message_sent_def record_message_error_def Let_def
      update_rates_frame)

lemma totals_run:
  "list_all (\<lambda>c. is_sent c \<or> is_error c) calls \<Longrightarrow>
   total_messages (system_metrics (foldl mc_step s calls)) =
     total_messages (system_metrics s) + int (length (filter is_sent calls)) \<and>
   total_errors (system_metrics (foldl mc_step s calls)) =
     total_errors (system_metrics s) + int (length (filter is_error calls))"
proof (induction calls arbitrary: s)
  case Nil
  then show ?case by simp
next
  case (Cons c cs)
  then have c: "is_sent c \<or> is_error c" and cs: "list_all (\<lambda>c. is_sent c \<or> is_error c) cs"
    by simp_all
  show ?case using totals_step[OF c, of s] Cons.IH[OF cs, of "mc_step s c"]
    by simp
qed

text \<open>
  Claim C2. A fresh collector, or one just reset, that processes only
  \<open>record_message_sent\<close> and \<open>record_message_error\<close> calls, over any device ids and in
  any interleaving, exports \<open>total_messages\<close> equal to the number of the former and
  \<open>total_errors\<close> equal to the number of the latter.
\<close>

theorem export_totals:
  assumes "list_all (\<lambda>c. is_sent c \<or> is_error c) calls"
    and "s0 \<in> {MetricsCollector_init t0, reset_metrics t0 s}"
  shows "total_messages (exp_system_metrics (export_metrics now (mc_run calls s0))) =
           int (length (filter is_sent calls)) \<and>
         total_errors (exp_system_metrics (export_metrics now (mc_run calls s0))) =
           int (length (filter is_error calls))"
proof -
  have z: "total_messages (system_metrics s0) = 0 \<and> total_errors (system_metrics s0) = 0"
    using assms(2)
    by (auto simp: MetricsCollector_init_def reset_metrics_def zero_system_metrics_def)
  show ?thesis using totals_run[OF assms(1), of s0] z
    by (simp add: export_metrics_def get_system_metrics_def mc_run_def)
qed

theorem export_totals_witness:
  "list_all (\<lambda>c. is_sent c \<or> is_error c)
     [RecordMessageSent ''a'' [] 1, RecordMessageError ''b'' [] 2, RecordMessageSent ''a'' [] 3] \<and>
   total_messages (exp_system_metrics (export_metrics 5
     (mc_run [RecordMessageSent ''a'' [] 1, RecordMessageError ''b'' [] 2, RecordMessageSent ''a'' [] 3]
        (MetricsCollector_init 0)))) = 2 \<and>
   total_errors (exp_system_metrics (export_metrics 5
     (mc_run [RecordMessageSent ''a'' [] 1, RecordMessageError ''b'' [] 2, RecordMessageSent ''a'' [] 3]
        (MetricsCollector_init 0)))) = 1"
  using export_totals[of "[RecordMessageSent ''a'' [] 1, RecordMessageError ''b'' [] 2,
      RecordMessageSent ''a'' [] 3]" "MetricsCollector_init 0" 0 undefined 5]
  by simp

text \<open>
  Claim C1. After every run of calls on a fresh collector, and after one more
  \<open>update_device_status\<close> on top of it, \<open>connected_devices\<close> is the number of entries
  whose connection status is \<open>connected\<close> and \<open>active_devices\<close> the number whose
  simulation status is \<open>running\<close>; an update repeated with the same status data leaves
  the system counters as they are.
\<close>

theorem update_device_status_counters:
  "counters_consistent (mc_run calls (MetricsCollector_init t0)) \<and>
   counters_consistent (update_device_status d st (mc_run calls (MetricsCollector_init t0))) \<and>
   system_metrics (update_device_status d st (update_device_status d st s)) =
     system_metrics (update_device_status d st s)"
  by (simp add: consistent_run consistent_init consistent_update update_twice)

text \<open>
  Claim C10. Reading the metrics of a device id the collector has never seen returns
  the default entry and inserts it into the per-device dictionary, so
  \<open>get_system_metrics\<close> afterwards reports one more device.
\<close>

theorem get_device_metrics_inserts_default:
  assumes "map_of (device_metrics s) d = None"
  shows "fst (get_device_metrics d s) =
           \<lparr>m_message_count = 0, m_error_count = 0, m_last_message_time = None,
            m_connection_status = ''disconnected'', m_simulation_status = ''stopped''\<rparr> \<and>
         device_metrics (snd (get_device_metrics d s)) =
           device_metrics s @ [(d, fst (get_device_metrics d s))] \<and>
         total_devices (get_system_metrics now (snd (get_device_metrics d s))) =
           total_devices (get_system_metrics now s) + 1"
  using assms
  by (simp add: get_device_metrics_def dd_getitem_def default_entry_def get_system_metrics_def)

theorem get_device_metrics_inserts_default_witness:
  "map_of (device_metrics (MetricsCollector_init 0)) ''dev1'' = None \<and>
   m_connection_status (fst (get_device_metrics ''dev1'' (MetricsCollector_init 0))) = ''disconnected'' \<and>
   total_devices (get_system_metrics 1 (MetricsCollector_init 0)) = 0 \<and>
   total_devices (get_system_metrics 1 (snd (get_device_metrics ''dev1'' (MetricsCollector_init 0)))) = 1"
  using get_device_metrics_inserts_default[of "MetricsCollector_init 0" "''dev1''" 1]
  by (simp add: MetricsCollector_init_def get_system_metrics_def)

section \<open>Properties of the message generator\<close>

lemma generate_numeric_value_linear:
  assumes "pattern f = LINEAR" and "max_value f = Some m" and "m \<noteq> 0"
  shows "generate_numeric_value A env f t =
           (if linear_value A f (step_counter t) > m
            then (Inr (convert_num f (opt_or (min_value f) 0)), t\<lparr>step_counter := 0\<rparr>)
            else (Inr (convert_num f (linear_value A f (step_counter t))), t))"
  using assms
  by (simp add: generate_numeric_value_def numeric_raw_def Let_def linear_value_def convert_num_def)

text \<open>
  Claim C3, as amended. For a numeric field with the linear pattern and a non-zero
  \<open>max_value\<close>, the running value is \<open>min_value\<close> (or 0) plus \<open>step_size\<close> (or 0.1) times
  the step counter, as Python's arithmetic computes it. While it does not exceed
  \<open>max_value\<close> the generated value is the running value converted for the field's type
  (truncated for \<open>int\<close>, rounded to two decimals otherwise) and the template is
  unchanged; on the call where it exceeds \<open>max_value\<close> the generated value is
  \<open>min_value\<close> (or 0), converted the same way, and the step counter is reset to 0.
\<close>

theorem linear_value_wraps:
  assumes "pattern f = LINEAR" and "max_value f = Some m" and "m \<noteq> 0"
  shows "(linear_value A f (step_counter t) \<le> m \<longrightarrow>
            generate_numeric_value A env f t =
              (Inr (convert_num f (linear_value A f (step_counter t))), t)) \<and>
         (linear_value A f (step_counter t) > m \<longrightarrow>
            generate_numeric_value A env f t =
              (Inr (convert_num f (opt_or (min_value f) 0)), t\<lparr>step_counter := 0\<rparr>))"
  using generate_numeric_value_linear[OF assms, where A = A and env = env and t = t] by simp

theorem linear_value_wraps_witness:
  "linear_value arith0
     ((FieldConfig_new ''n'' ''float'' LINEAR)\<lparr>max_value := Some 1, step_size := 1 / 2\<rparr>) 2 = 1 \<and>
   generate_numeric_value arith0 env0
     ((FieldConfig_new ''n'' ''float'' LINEAR)\<lparr>max_value := Some 1, step_size := 1 / 2\<rparr>)
     ((MessageTemplate_init False ''t'' '''')\<lparr>step_counter := 2\<rparr>) =
     (Inr (PNum 1), (MessageTemplate_init False ''t'' '''')\<lparr>step_counter := 2\<rparr>) \<and>
   linear_value arith0
     ((FieldConfig_new ''n'' ''float'' LINEAR)\<lparr>max_value := Some 1, step_size := 1 / 2\<rparr>) 3 = 3 / 2 \<and>
   generate_numeric_value arith0 env0
     ((FieldConfig_new ''n'' ''float'' LINEAR)\<lparr>max_value := Some 1, step_size := 1 / 2\<rparr>)
     ((MessageTemplate_init False ''t'' '''')\<lparr>step_counter := 3\<rparr>) =
     (Inr (PNum 0), (MessageTemplate_init False ''t'' '''')\<lparr>step_counter := 0\<rparr>)"
  using linear_value_wraps[where
      f = "(FieldConfig_new ''n'' ''float'' LINEAR)\<lparr>max_value := Some 1, step_size := 1 / 2\<rparr>"
      and m = 1 and env = env0 and A = arith0
      and t = "(MessageTemplate_init False ''t'' '''')\<lparr>step_counter := 2\<rparr>"]
    linear_value_wraps[where
      f = "(FieldConfig_new ''n'' ''float'' LINEAR)\<lparr>max_value := Some 1, step_size := 1 / 2\<rparr>"
      and m = 1 and env = env0 and A = arith0
      and t = "(MessageTemplate_init False ''t'' '''')\<lparr>step_counter := 3\<rparr>"]
  by (simp add: linear_value_def convert_num_def arith0_def
      FieldConfig_new_def MessageTemplate_init_def opt_or_def num_or_def round2_def)

text \<open>
  The claim as stated fails: an \<open>int\<close> field with step 0.5 and \<open>max_value\<close> 10 has the
  running value 0.5 at step counter 1, well below the maximum, and generates 0.
\<close>

theorem linear_value_unconverted_counterexample:
  "pattern ((FieldConfig_new ''n'' ''int'' LINEAR)\<lparr>max_value := Some 10, step_size := 1 / 2\<rparr>) = LINEAR \<and>
   max_value ((FieldConfig_new ''n'' ''int'' LINEAR)\<lparr>max_value := Some 10, step_size := 1 / 2\<rparr>) = Some 10 \<and>
   linear_value arith0
     ((FieldConfig_new ''n'' ''int'' LINEAR)\<lparr>max_value := Some 10, step_size := 1 / 2\<rparr>) 1 = 1 / 2 \<and>
   fst (generate_numeric_value arith0 env0
          ((FieldConfig_new ''n'' ''int'' LINEAR)\<lparr>max_value := Some 10, step_size := 1 / 2\<rparr>)
          ((MessageTemplate_init False ''t'' '''')\<lparr>step_counter := 1\<rparr>)) = Inr (PNum 0) \<and>
   PNum 0 \<noteq> PNum (1 / 2)"
  by (simp add: generate_numeric_value_def numeric_raw_def Let_def linear_value_def arith0_def
      FieldConfig_new_def MessageTemplate_init_def opt_or_def num_or_def trunc_def)

lemma constant_numeric:
  "pattern f = CONSTANT \<Longrightarrow>
   generate_numeric_value A env f t =
     ((if data_type f = ''int'' then py_int env (val_or (constant_value f) (PNum 0))
       else py_round2 (val_or (constant_value f) (PNum 0))), t)"
  by (simp add: generate_numeric_value_def numeric_raw_def)

lemma constant_field_frame:
  "pattern f = CONSTANT \<Longrightarrow>
   generate_field_value A env f (t\<lparr>step_counter := k\<rparr>) =
     (fst (generate_field_value A env f t), t\<lparr>step_counter := k\<rparr>)"
  by (simp add: generate_field_value_def constant_numeric generate_string_value_def
      generate_location_def split: sum.splits)

lemma round2_0: "round2 0 = 0"
  by (simp add: round2_def)

lemma trunc_0: "trunc 0 = 0"
  by (simp add: trunc_def)

text \<open>
  Claim C7, as amended. A field with the constant pattern generates the same value at
  every step counter and leaves the template as it is. That value is the configured
  constant converted for the field's type: a boolean constant itself (\<open>False\<close> when
  unset), a string constant itself (the empty string when unset), a numeric constant
  truncated to an integer for an \<open>int\<close> field and rounded to two decimals for a
  \<open>float\<close> field (0 when unset).
\<close>

theorem constant_field_value:
  assumes "pattern f = CONSTANT"
  shows "generate_field_value A env f (t\<lparr>step_counter := k\<rparr>) =
           (fst (generate_field_value A env f t), t\<lparr>step_counter := k\<rparr>) \<and>
         (data_type f = ''bool'' \<and> constant_value f = PBool b \<longrightarrow>
            fst (generate_field_value A env f t) = PBool b) \<and>
         (data_type f = ''bool'' \<and> constant_value f = PNone \<longrightarrow>
            fst (generate_field_value A env f t) = PBool False) \<and>
         (data_type f = ''string'' \<and> constant_value f = PStr s \<longrightarrow>
            fst (generate_field_value A env f t) = PStr s) \<and>
         (data_type f = ''string'' \<and> constant_value f = PNone \<longrightarrow>
            fst (generate_field_value A env f t) = PStr '''') \<and>
         (data_type f = ''int'' \<and> constant_value f = PNum r \<longrightarrow>
            fst (generate_field_value A env f t) = PNum (of_int (trunc r))) \<and>
         (data_type f = ''float'' \<and> constant_value f = PNum r \<longrightarrow>
            fst (generate_field_value A env f t) = PNum (round2 r)) \<and>
         (data_type f \<in> {''int'', ''float''} \<and> constant_value f = PNone \<longrightarrow>
            fst (generate_field_value A env f t) = PNum 0)"
proof -
  have bool: "data_type f = ''bool'' \<Longrightarrow>
      fst (generate_field_value A env f t) = PBool (truthy (constant_value f))"
    using assms by (simp add: generate_field_value_def)
  have str: "data_type f = ''string'' \<Longrightarrow>
      fst (generate_field_value A env f t) = PStr (py_str env (val_or (constant_value f) (PStr '''')))"
    using assms by (simp add: generate_field_value_def generate_string_value_def)
  have int: "data_type f = ''int'' \<Longrightarrow> constant_value f = PNum r \<Longrightarrow>
      fst (generate_field_value A env f t) = PNum (of_int (trunc r))"
    using assms by (simp add: generate_field_value_def constant_numeric val_or_def trunc_0)
  have flt: "data_type f = ''float'' \<Longrightarrow> constant_value f = PNum r \<Longrightarrow>
      fst (generate_field_value A env f t) = PNum (round2 r)"
    using assms by (simp add: generate_field_value_def constant_numeric val_or_def round2_0)
  have unset: "data_type f \<in> {''int'', ''float''} \<Longrightarrow> constant_value f = PNone \<Longrightarrow>
      fst (generate_field_value A env f t) = PNum 0"
    using assms
    by (auto simp: generate_field_value_def constant_numeric val_or_def round2_0 trunc_0)
  show ?thesis
    using constant_field_frame[OF assms, where A = A and env = env and t = t and k = k]
      bool str int flt unset
    by (auto simp: val_or_def py_str_def)
qed

theorem constant_field_value_witness:
  "generate_field_value arith0 env0
     ((FieldConfig_new ''k'' ''float'' CONSTANT)\<lparr>constant_value := PNum (157 / 50)\<rparr>)
     ((MessageTemplate_init False ''t'' '''')\<lparr>step_counter := 7\<rparr>) =
     (PNum (157 / 50), (MessageTemplate_init False ''t'' '''')\<lparr>step_counter := 7\<rparr>) \<and>
   fst (generate_field_value arith0 env0
     ((FieldConfig_new ''k'' ''float'' CONSTANT)\<lparr>constant_value := PNum (157 / 50)\<rparr>)
     (MessageTemplate_init False ''t'' '''')) = PNum (157 / 50)"
  using constant_field_value[where
      f = "(FieldConfig_new ''k'' ''float'' CONSTANT)\<lparr>constant_value := PNum (157 / 50)\<rparr>"
      and env = env0 and A = arith0
      and t = "MessageTemplate_init False ''t'' ''''" and k = 7 and r = "157 / 50"]
  by (simp add: FieldConfig_new_def round2_def)

text \<open>
  The claim as stated fails: a \<open>float\<close> field with the constant 0.125 generates 0.12.
\<close>

theorem constant_field_rounded_counterexample:
  "pattern ((FieldConfig_new ''k'' ''float'' CONSTANT)\<lparr>constant_value := PNum (1 / 8)\<rparr>) = CONSTANT \<and>
   fst (generate_field_value arith0 env0
     ((FieldConfig_new ''k'' ''float'' CONSTANT)\<lparr>constant_value := PNum (1 / 8)\<rparr>)
     (MessageTemplate_init False ''t'' '''')) = PNum (3 / 25) \<and>
   PNum (3 / 25) \<noteq>
     constant_value ((FieldConfig_new ''k'' ''float'' CONSTANT)\<lparr>constant_value := PNum (1 / 8)\<rparr>)"
  by (simp add: generate_field_value_def generate_numeric_value_def numeric_raw_def
      FieldConfig_new_def val_or_def round2_def)

lemma numeric_raw_snd:
  "snd (numeric_raw A env f t) =
     (if pattern f = LINEAR \<and>
         (case max_value f of None \<Rightarrow> False | Some m \<Rightarrow> m \<noteq> 0 \<and> linear_value A f (step_counter t) > m)
      then t\<lparr>step_counter := 0\<rparr> else t)"
  by (cases "pattern f")
    (simp_all add: numeric_raw_def Let_def linear_value_def split: option.splits)

lemma generate_numeric_value_snd:
  "snd (generate_numeric_value A env f t) = snd (numeric_raw A env f t)"
  by (simp add: generate_numeric_value_def split: prod.splits)

lemma field_value_numeric:
  "data_type f \<in> set [''int'', ''float''] \<Longrightarrow>
   snd (generate_field_value A env f t) = snd (generate_numeric_value A env f t)"
  by (auto simp: generate_field_value_def split: prod.splits sum.splits)

lemma field_value_other:
  "data_type f \<notin> set [''int'', ''float''] \<Longrightarrow> snd (generate_field_value A env f t) = t"
  by (simp add: generate_field_value_def)

lemma field_value_snd:
  "snd (generate_field_value A env f t) =
     (if wraps A f (step_counter t) then t\<lparr>step_counter := 0\<rparr> else t)"
proof (cases "data_type f \<in> set [''int'', ''float'']")
  case True
  then show ?thesis
    using field_value_numeric[OF True, of A env t]
    by (simp only: generate_numeric_value_snd numeric_raw_snd wraps_def) simp
next
  case False
  then show ?thesis
    using field_value_other[OF False, of A env t] by (simp add: wraps_def)
qed

lemma field_value_wrap_fst:
  assumes "wraps A f (step_counter t)"
  shows "fst (generate_field_value A env f t) = convert_num f (opt_or (min_value f) 0)"
proof -
  from assms obtain m where ty: "data_type f = ''int'' \<or> data_type f = ''float''"
    and lin: "pattern f = LINEAR" and mx: "max_value f = Some m" and m0: "m \<noteq> 0"
    and gt: "linear_value A f (step_counter t) > m"
    by (auto simp: wraps_def split: option.splits)
  have "generate_numeric_value A env f t =
      (Inr (convert_num f (opt_or (min_value f) 0)), t\<lparr>step_counter := 0\<rparr>)"
    using lin mx m0 gt
    by (simp add: generate_numeric_value_def numeric_raw_def Let_def linear_value_def
        convert_num_def)
  then show ?thesis using ty by (auto simp: generate_field_value_def)
qed

lemma step_counter_zero: "step_counter t = 0 \<Longrightarrow> t\<lparr>step_counter := 0\<rparr> = t"
  by (cases t) simp

lemma generate_fields_no_wrap:
  "list_all (\<lambda>f. \<not> wraps A f (step_counter t)) fs \<Longrightarrow>
   generate_fields A E i fs message t = (fields_at A E i fs message t, t)"
proof (induction fs arbitrary: i message)
  case Nil
  then show ?case by simp
next
  case (Cons f fs)
  then have nw: "\<not> wraps A f (step_counter t)"
    and rest: "list_all (\<lambda>f. \<not> wraps A f (step_counter t)) fs"
    by simp_all
  obtain v t' where g: "generate_field_value A (E i) f t = (v, t')"
    by (cases "generate_field_value A (E i) f t")
  have "t' = t" using field_value_snd[of A "E i" f t] nw g by simp
  then show ?case using Cons.IH[OF rest] g by simp
qed

lemma generate_fields_zero:
  "step_counter t = 0 \<Longrightarrow>
   generate_fields A E i fs message t = (fields_at A E i fs message t, t)"
proof (induction fs arbitrary: i message)
  case Nil
  then show ?case by simp
next
  case (Cons f fs)
  obtain v t' where g: "generate_field_value A (E i) f t = (v, t')"
    by (cases "generate_field_value A (E i) f t")
  have "t' = t"
    using field_value_snd[of A "E i" f t] g step_counter_zero[OF Cons.prems] by simp
  then show ?case using Cons.IH[OF Cons.prems] g by simp
qed

lemma generate_fields_append:
  "generate_fields A E i (pre @ post) message t =
     (case generate_fields A E i pre message t of
        (m', t') \<Rightarrow> generate_fields A E (i + length pre) post m' t')"
proof (induction pre arbitrary: i message t)
  case Nil
  then show ?case by simp
next
  case (Cons f pre)
  then show ?case by (simp split: prod.splits)
qed

lemma generate_fields_wrap:
  assumes "list_all (\<lambda>g. \<not> wraps A g (step_counter t)) pre"
    and "wraps A f (step_counter t)"
  shows "generate_fields A E 0 (pre @ f # post) [] t =
     (fields_at A E (Suc (length pre)) post
        (dict_setitem (name f) (convert_num f (opt_or (min_value f) 0))
           (fields_at A E 0 pre [] t))
        (t\<lparr>step_counter := 0\<rparr>),
      t\<lparr>step_counter := 0\<rparr>)"
proof -
  have pre: "generate_fields A E 0 pre [] t = (fields_at A E 0 pre [] t, t)"
    by (rule generate_fields_no_wrap[OF assms(1)])
  have f: "generate_field_value A (E (length pre)) f t =
      (convert_num f (opt_or (min_value f) 0), t\<lparr>step_counter := 0\<rparr>)"
    using field_value_wrap_fst[OF assms(2), of "E (length pre)"]
      field_value_snd[of A "E (length pre)" f t] assms(2)
    by (simp add: prod_eq_iff)
  have z: "step_counter (t\<lparr>step_counter := 0\<rparr>) = 0" by simp
  show ?thesis
    by (simp add: generate_fields_append pre f generate_fields_zero[OF z])
qed

lemma generate_message_snd:
  "snd (generate_message A E t) =
      (snd (generate_fields A E 0 (tpl_fields t) [] t))
        \<lparr>step_counter := step_counter (snd (generate_fields A E 0 (tpl_fields t) [] t)) + 1\<rparr>"
  by (simp add: generate_message_def Let_def split: prod.splits)

text \<open>
  Claim C8, as amended. \<open>generate_message\<close> increments the template's one step counter
  exactly once, after all fields have been evaluated: the counter after the call is one
  more than the counter the field loop leaves. When no field takes the wrapping branch
  of the linear pattern at the current counter, every field is evaluated in the same
  template state and the call changes the template only by adding 1 to the counter.
  When a field wraps, the fields before the first such field are evaluated in the
  state the call started in, the wrapping field yields its \<open>min_value\<close> (or 0), the
  fields after it are evaluated with the counter at 0, and the call leaves the counter
  at 1.
\<close>

theorem step_counter_once_per_call:
  "step_counter (snd (generate_message A E t)) =
     step_counter (snd (generate_fields A E 0 (tpl_fields t) [] t)) + 1 \<and>
   (list_all (\<lambda>f. \<not> wraps A f (step_counter t)) (tpl_fields t) \<longrightarrow>
      generate_fields A E 0 (tpl_fields t) [] t = (fields_at A E 0 (tpl_fields t) [] t, t) \<and>
      snd (generate_message A E t) = t\<lparr>step_counter := step_counter t + 1\<rparr>) \<and>
   (tpl_fields t = pre @ f # post \<and> list_all (\<lambda>g. \<not> wraps A g (step_counter t)) pre \<and>
    wraps A f (step_counter t) \<longrightarrow>
      generate_fields A E 0 (tpl_fields t) [] t =
        (fields_at A E (Suc (length pre)) post
           (dict_setitem (name f) (convert_num f (opt_or (min_value f) 0))
              (fields_at A E 0 pre [] t))
           (t\<lparr>step_counter := 0\<rparr>),
         t\<lparr>step_counter := 0\<rparr>) \<and>
      snd (generate_message A E t) = t\<lparr>step_counter := 1\<rparr>)"
proof -
  have a: "step_counter (snd (generate_message A E t)) =
      step_counter (snd (generate_fields A E 0 (tpl_fields t) [] t)) + 1"
    by (simp add: generate_message_snd)
  have b: "generate_fields A E 0 (tpl_fields t) [] t = (fields_at A E 0 (tpl_fields t) [] t, t) \<and>
      snd (generate_message A E t) = t\<lparr>step_counter := step_counter t + 1\<rparr>"
    if "list_all (\<lambda>f. \<not> wraps A f (step_counter t)) (tpl_fields t)"
    using generate_fields_no_wrap[OF that, of E 0 "[]"] by (simp add: generate_message_snd)
  have c: "generate_fields A E 0 (tpl_fields t) [] t =
        (fields_at A E (Suc (length pre)) post
           (dict_setitem (name f) (convert_num f (opt_or (min_value f) 0))
              (fields_at A E 0 pre [] t))
           (t\<lparr>step_counter := 0\<rparr>),
         t\<lparr>step_counter := 0\<rparr>) \<and>
      snd (generate_message A E t) = t\<lparr>step_counter := 1\<rparr>"
    if "tpl_fields t = pre @ f # post" and "list_all (\<lambda>g. \<not> wraps A g (step_counter t)) pre"
      and "wraps A f (step_counter t)"
    using generate_fields_wrap[OF that(2) that(3), of E post] that(1)
    by (simp add: generate_message_snd)
  show ?thesis using a b c by blast
qed


lemma wraps_ramp: "wraps arith0 ramp_field 2"
  by (simp add: wraps_def ramp_field_def FieldConfig_new_def linear_value_def arith0_def
      opt_or_def num_or_def)

theorem step_counter_once_per_call_witness:
  "list_all (\<lambda>f. \<not> wraps arith0 f (step_counter ((motion_sensor False)\<lparr>step_counter := 4\<rparr>)))
     (tpl_fields ((motion_sensor False)\<lparr>step_counter := 4\<rparr>)) \<and>
   snd (generate_message arith0 (\<lambda>i. env0) ((motion_sensor False)\<lparr>step_counter := 4\<rparr>)) =
     (motion_sensor False)\<lparr>step_counter := 5\<rparr> \<and>
   tpl_fields ramp_template = [] @ ramp_field # [label_field] \<and>
   wraps arith0 ramp_field (step_counter ramp_template) \<and>
   snd (generate_message arith0 (\<lambda>i. env0) ramp_template) = ramp_template\<lparr>step_counter := 1\<rparr>"
proof -
  have nw: "list_all (\<lambda>f. \<not> wraps arith0 f (step_counter ((motion_sensor False)\<lparr>step_counter := 4\<rparr>)))
     (tpl_fields ((motion_sensor False)\<lparr>step_counter := 4\<rparr>))"
    by (simp add: motion_sensor_def add_field_def MessageTemplate_init_def FieldConfig_new_def
        wraps_def)
  have fs: "tpl_fields ramp_template = [] @ ramp_field # [label_field]"
    by (simp add: ramp_template_def add_field_def MessageTemplate_init_def)
  have sc: "step_counter ramp_template = 2"
    by (simp add: ramp_template_def)
  show ?thesis
    using nw fs sc wraps_ramp
      step_counter_once_per_call[where A = arith0 and E = "\<lambda>i. env0"
        and t = "(motion_sensor False)\<lparr>step_counter := 4\<rparr>"]
      step_counter_once_per_call[where A = arith0 and E = "\<lambda>i. env0" and t = ramp_template
        and pre = "[]" and f = ramp_field and post = "[label_field]"]
    by simp
qed

text \<open>
  The claim as stated fails: a linear field that wraps at counter 2 resets the shared
  counter inside the call, so the counter after the call is 1, not 3, and the field
  declared after it observes the counter 0.
\<close>

theorem step_counter_reset_counterexample:
  "step_counter ramp_template = 2 \<and>
   step_counter (snd (generate_message arith0 (\<lambda>i. env0) ramp_template)) = 1 \<and>
   step_counter (snd (generate_message arith0 (\<lambda>i. env0) ramp_template)) \<noteq>
     step_counter ramp_template + 1 \<and>
   fst (generate_message arith0 (\<lambda>i. env0) ramp_template) =
     [(''ramp'', PNum 0), (''label'', PStr ''label_0''), (''timestamp'', PStr (now_iso env0))]"
proof -
  have r: "generate_field_value arith0 env0 ramp_field ramp_template =
      (PNum 0, ramp_template\<lparr>step_counter := 0\<rparr>)"
    by (simp add: generate_field_value_def generate_numeric_value_def numeric_raw_def Let_def
        ramp_field_def ramp_template_def FieldConfig_new_def arith0_def opt_or_def num_or_def
        round2_def)
  have l: "generate_field_value arith0 env0 label_field (ramp_template\<lparr>step_counter := 0\<rparr>) =
      (PStr ''label_0'', ramp_template\<lparr>step_counter := 0\<rparr>)"
    by (simp add: generate_field_value_def generate_string_value_def label_field_def
        FieldConfig_new_def str_of_int_def str_of_nat.simps)
  have fs: "tpl_fields ramp_template = [ramp_field, label_field]"
    by (simp add: ramp_template_def add_field_def MessageTemplate_init_def)
  have n: "name ramp_field = ''ramp''" "name label_field = ''label''"
    by (simp_all add: ramp_field_def label_field_def FieldConfig_new_def)
  have g: "generate_fields arith0 (\<lambda>i. env0) 0 (tpl_fields ramp_template) [] ramp_template =
      ([(''ramp'', PNum 0), (''label'', PStr ''label_0'')], ramp_template\<lparr>step_counter := 0\<rparr>)"
    by (simp add: fs r l n)
  have sc: "step_counter ramp_template = 2"
    by (simp add: ramp_template_def)
  show ?thesis
    by (simp add: generate_message_def g sc Let_def)
qed

section \<open>Properties of the device simulation\<close>

lemma dict_setitem_nonempty: "dict_setitem k v d \<noteq> []"
  by (cases d) simp_all

lemma generate_message_nonempty: "fst (generate_message A E t) \<noteq> []"
proof -
  obtain message t' where g: "generate_fields A E 0 (tpl_fields t) [] t = (message, t')"
    by (cases "generate_fields A E 0 (tpl_fields t) [] t")
  show ?thesis
  proof (cases "map_of message ''timestamp'' = None")
    case True
    then show ?thesis by (simp add: generate_message_def g dict_setitem_nonempty)
  next
    case False
    then have "message \<noteq> []" by auto
    with False show ?thesis by (auto simp: generate_message_def g)
  qed
qed

lemma generator_unknown:
  "get_template n g = None \<Longrightarrow> MessageGenerator_generate_message A E n g = (None, g)"
  by (simp add: MessageGenerator_generate_message_def)

lemma generator_known:
  assumes "get_template n g = Some t"
  obtains m g' where "MessageGenerator_generate_message A E n g = (Some m, g')"
    and "m \<noteq> []" and "get_template n g' \<noteq> None"
proof -
  obtain m t' where gm: "generate_message A E t = (m, t')"
    by (cases "generate_message A E t")
  have ne: "m \<noteq> []" using generate_message_nonempty[of A E t] gm by simp
  have "MessageGenerator_generate_message A E n g =
      (Some m, g\<lparr>templates := dict_setitem n t' (templates g)\<rparr>)"
    using assms gm by (simp add: MessageGenerator_generate_message_def)
  moreover have "get_template n (g\<lparr>templates := dict_setitem n t' (templates g)\<rparr>) \<noteq> None"
    by (simp add: get_template_def map_of_dict_setitem)
  ultimately show ?thesis using ne that by blast
qed

lemma send_message_fst: "fst (send_message az e m dev) = send_succeeds az dev e"
  by (simp add: send_message_def send_succeeds_def)

lemma send_message_frame:
  "dev_config (snd (send_message az e m dev)) = dev_config dev"
  "has_client (snd (send_message az e m dev)) = has_client dev"
  "is_connected (snd (send_message az e m dev)) = is_connected dev"
  by (simp_all add: send_message_def)

lemma send_message_counts:
  "dev_message_count (snd (send_message az e m dev)) =
     dev_message_count dev + (if send_succeeds az dev e then 1 else 0)"
  "dev_error_count (snd (send_message az e m dev)) =
     dev_error_count dev +
       (if az \<and> has_client dev \<and> is_connected dev \<and> send_raises e then 1 else 0)"
  by (auto simp: send_message_def send_succeeds_def)

lemma send_single_unknown:
  "\<not> template_known s \<Longrightarrow> send_single_message az A e s = s"
  by (simp add: send_single_message_def template_known_def generator_unknown)

lemma send_single_known:
  assumes "template_known s"
  obtains m g' where
    "send_single_message az A e s =
       s\<lparr>message_generator := g',
         device := snd (send_message az e m (device s)),
         message_count := message_count s + (if send_succeeds az (device s) e then 1 else 0)\<rparr>"
    and "get_template (template_name (dev_config (device s))) g' \<noteq> None"
proof -
  from assms obtain t where
    t: "get_template (template_name (dev_config (device s))) (message_generator s) = Some t"
    by (auto simp: template_known_def)
  obtain m g' where
    g: "MessageGenerator_generate_message A (gen_env e) (template_name (dev_config (device s)))
          (message_generator s) = (Some m, g')"
    and ne: "m \<noteq> []"
    and kn: "get_template (template_name (dev_config (device s))) g' \<noteq> None"
    using generator_known[OF t, of A "gen_env e"] by blast
  obtain ok dev' where sm: "send_message az e m (device s) = (ok, dev')"
    by (cases "send_message az e m (device s)")
  have ok: "ok = send_succeeds az (device s) e"
    using send_message_fst[of az e m "device s"] sm by simp
  have "send_single_message az A e s =
       s\<lparr>message_generator := g',
         device := snd (send_message az e m (device s)),
         message_count := message_count s + (if send_succeeds az (device s) e then 1 else 0)\<rparr>"
    using g ne sm ok by (simp add: send_single_message_def Let_def)
  then show ?thesis using kn that by blast
qed

lemma send_single_effect:
  "same_setup s (send_single_message az A e s) \<and>
   message_count (send_single_message az A e s) =
     message_count s + (if template_known s \<and> send_succeeds az (device s) e then 1 else 0) \<and>
   dev_message_count (device (send_single_message az A e s)) =
     dev_message_count (device s) +
       (if template_known s \<and> send_succeeds az (device s) e then 1 else 0) \<and>
   dev_error_count (device (send_single_message az A e s)) =
     dev_error_count (device s) +
       (if template_known s \<and> az \<and> has_client (device s) \<and> is_connected (device s) \<and>
           send_raises e then 1 else 0)"
proof (cases "template_known s")
  case False
  then show ?thesis by (simp add: send_single_unknown same_setup_def)
next
  case True
  obtain m g' where
    eq: "send_single_message az A e s =
       s\<lparr>message_generator := g',
         device := snd (send_message az e m (device s)),
         message_count := message_count s + (if send_succeeds az (device s) e then 1 else 0)\<rparr>"
    and kn: "get_template (template_name (dev_config (device s))) g' \<noteq> None"
    using send_single_known[OF True, of az A e] by blast
  show ?thesis
    using True kn
    by (simp add: eq same_setup_def template_known_def send_message_frame send_message_counts)
qed

lemma same_setup_refl: "same_setup s s"
  by (simp add: same_setup_def)

lemma same_setup_trans: "same_setup s s' \<Longrightarrow> same_setup s' s'' \<Longrightarrow> same_setup s s''"
  by (simp add: same_setup_def)

lemma same_setup_succeeds:
  "same_setup s s' \<Longrightarrow> send_succeeds az (device s') e = send_succeeds az (device s) e"
  by (simp add: same_setup_def send_succeeds_def)

lemma count_shift:
  "int (length (filter P [i..<i + Suc k])) =
     (if P i then 1 else 0) + int (length (filter P [Suc i..<Suc i + k]))"
proof -
  have e: "[i..<i + Suc k] = i # [Suc i..<Suc i + k]"
    by (subst upt_rec) simp
  show ?thesis by (simp only: e) simp
qed

lemma burst_loop_effect:
  "same_setup s (burst_loop az A E i k s) \<and>
   message_count (burst_loop az A E i k s) =
     message_count s +
       (if template_known s
        then int (length (filter (\<lambda>j. send_succeeds az (device s) (E j)) [i..<i + k])) else 0) \<and>
   dev_message_count (device (burst_loop az A E i k s)) =
     dev_message_count (device s) +
       (if template_known s
        then int (length (filter (\<lambda>j. send_succeeds az (device s) (E j)) [i..<i + k])) else 0) \<and>
   dev_error_count (device (burst_loop az A E i k s)) =
     dev_error_count (device s) +
       (if template_known s \<and> az \<and> has_client (device s) \<and> is_connected (device s)
        then int (length (filter (\<lambda>j. send_raises (E j)) [i..<i + k])) else 0)"
proof (induction k arbitrary: i s)
  case 0
  then show ?case by (simp add: same_setup_refl)
next
  case (Suc k)
  define s1 where "s1 = send_single_message az A (E i) s"
  define P where "P = (\<lambda>j. send_succeeds az (device s) (E j))"
  define R where "R = (\<lambda>j. send_raises (E j))"
  define cP where "cP = int (length (filter P [Suc i..<Suc i + k]))"
  define cR where "cR = int (length (filter R [Suc i..<Suc i + k]))"
  have one: "same_setup s s1"
    "message_count s1 = message_count s + (if template_known s \<and> P i then 1 else 0)"
    "dev_message_count (device s1) =
       dev_message_count (device s) + (if template_known s \<and> P i then 1 else 0)"
    "dev_error_count (device s1) =
       dev_error_count (device s) +
         (if template_known s \<and> az \<and> has_client (device s) \<and> is_connected (device s) \<and> R i
          then 1 else 0)"
    using send_single_effect[of s az A "E i"] by (simp_all add: s1_def P_def R_def)
  have succ: "(\<lambda>j. send_succeeds az (device s1) (E j)) = P"
    using same_setup_succeeds[OF one(1)] by (simp add: P_def)
  have kn: "template_known s1 = template_known s"
    and hc: "has_client (device s1) = has_client (device s)"
    and ic: "is_connected (device s1) = is_connected (device s)"
    using one(1) by (simp_all add: same_setup_def)
  have rest: "same_setup s1 (burst_loop az A E (Suc i) k s1)"
    "message_count (burst_loop az A E (Suc i) k s1) =
       message_count s1 + (if template_known s then cP else 0)"
    "dev_message_count (device (burst_loop az A E (Suc i) k s1)) =
       dev_message_count (device s1) + (if template_known s then cP else 0)"
    "dev_error_count (device (burst_loop az A E (Suc i) k s1)) =
       dev_error_count (device s1) +
         (if template_known s \<and> az \<and> has_client (device s) \<and> is_connected (device s)
          then cR else 0)"
    using Suc.IH[of s1 "Suc i"] by (simp_all only: succ kn hc ic cP_def cR_def R_def)
  have cs: "int (length (filter P [i..<i + Suc k])) = (if P i then 1 else 0) + cP"
    "int (length (filter R [i..<i + Suc k])) = (if R i then 1 else 0) + cR"
    unfolding cP_def cR_def by (rule count_shift)+
  have unf: "burst_loop az A E i (Suc k) s = burst_loop az A E (Suc i) k s1"
    by (simp add: s1_def)
  have goal1: "same_setup s (burst_loop az A E i (Suc k) s)"
    unfolding unf by (rule same_setup_trans[OF one(1) rest(1)])
  have goal2: "message_count (burst_loop az A E i (Suc k) s) =
      message_count s + (if template_known s then int (length (filter P [i..<i + Suc k])) else 0)"
    unfolding unf cs rest(2) one(2) by simp
  have goal3: "dev_message_count (device (burst_loop az A E i (Suc k) s)) =
      dev_message_count (device s) +
        (if template_known s then int (length (filter P [i..<i + Suc k])) else 0)"
    unfolding unf cs rest(3) one(3) by simp
  have goal4: "dev_error_count (device (burst_loop az A E i (Suc k) s)) =
      dev_error_count (device s) +
        (if template_known s \<and> az \<and> has_client (device s) \<and> is_connected (device s)
         then int (length (filter R [i..<i + Suc k])) else 0)"
    unfolding unf cs rest(4) one(4) by simp
  show ?case
    using goal1 goal2 goal3 goal4 unfolding P_def R_def by blast
qed

lemma loop_body_effect:
  "same_setup s (loop_body az A E s) \<and>
   message_count (loop_body az A E s) =
     message_count s +
       (if template_known s then successes az (device s) E (attempts_per_iteration s) else 0) \<and>
   dev_message_count (device (loop_body az A E s)) =
     dev_message_count (device s) +
       (if template_known s then successes az (device s) E (attempts_per_iteration s) else 0) \<and>
   dev_error_count (device (loop_body az A E s)) =
     dev_error_count (device s) +
       (if template_known s \<and> az \<and> has_client (device s) \<and> is_connected (device s)
        then raised E (attempts_per_iteration s) else 0)"
proof (cases "burst_mode (sim_config s)")
  case True
  then show ?thesis
    using burst_loop_effect[of s az A E 0 "nat (burst_count (sim_config s))"]
    by (simp add: loop_body_def send_burst_messages_def attempts_per_iteration_def
        successes_def raised_def)
next
  case False
  then show ?thesis
    using send_single_effect[of s az A "E 0"]
    by (simp add: loop_body_def attempts_per_iteration_def successes_def raised_def)
qed

lemma same_setup_limit:
  "same_setup s s' \<Longrightarrow> message_count s' = message_count s \<Longrightarrow>
   limit_reached s' = limit_reached s"
  by (simp add: same_setup_def limit_reached_def split: option.splits)

lemma same_setup_attempts:
  "same_setup s s' \<Longrightarrow> attempts_per_iteration s' = attempts_per_iteration s"
  by (simp add: same_setup_def attempts_per_iteration_def)

lemma successes_none:
  "(\<forall>j. \<not> send_succeeds az dev (E j)) \<Longrightarrow> successes az dev E n = 0"
  by (simp add: successes_def)

lemma successes_all:
  "(\<forall>j. send_succeeds az dev (E j)) \<Longrightarrow> successes az dev E n = int n"
  by (simp add: successes_def)

lemma raised_all: "(\<forall>j. send_raises (E j)) \<Longrightarrow> raised E n = int n"
  by (simp add: raised_def)

lemma loop_body_no_success:
  assumes "\<not> template_known s \<or> (\<forall>j. \<not> send_succeeds az (device s) (E j))"
  shows "same_setup s (loop_body az A E s)"
    and "message_count (loop_body az A E s) = message_count s"
    and "limit_reached (loop_body az A E s) = limit_reached s"
    and "\<not> template_known (loop_body az A E s) \<or>
         (\<forall>j. \<not> send_succeeds az (device (loop_body az A E s)) (E' j)) \<longleftrightarrow>
         \<not> template_known s \<or> (\<forall>j. \<not> send_succeeds az (device s) (E' j))"
proof -
  note eff = loop_body_effect[of s az A E]
  show ss: "same_setup s (loop_body az A E s)" using eff by simp
  show mc: "message_count (loop_body az A E s) = message_count s"
    using eff assms successes_none[of az "device s" E] by auto
  show "limit_reached (loop_body az A E s) = limit_reached s"
    by (rule same_setup_limit[OF ss mc])
  show "\<not> template_known (loop_body az A E s) \<or>
         (\<forall>j. \<not> send_succeeds az (device (loop_body az A E s)) (E' j)) \<longleftrightarrow>
         \<not> template_known s \<or> (\<forall>j. \<not> send_succeeds az (device s) (E' j))"
    using ss same_setup_succeeds[OF ss] by (simp add: same_setup_def)
qed

lemma loop_state_no_success:
  "\<not> template_known s \<or> (\<forall>j. \<not> send_succeeds az (device s) (E j)) \<Longrightarrow>
   same_setup s (loop_state k az A E s) \<and>
   message_count (loop_state k az A E s) = message_count s"
proof (induction k arbitrary: s E)
  case 0
  then show ?case by (simp add: same_setup_refl)
next
  case (Suc k)
  show ?case
  proof (cases "is_running s \<and> \<not> limit_reached s")
    case False
    then show ?thesis by (auto simp: same_setup_refl)
  next
    case True
    let ?E = "\<lambda>i. E (i + attempts_per_iteration s)"
    let ?b = "loop_body az A E s"
    have pre: "\<not> template_known s \<or> (\<forall>j. \<not> send_succeeds az (device s) (?E j))"
      using Suc.prems by auto
    have h: "\<not> template_known ?b \<or> (\<forall>j. \<not> send_succeeds az (device ?b) (?E j))"
      using loop_body_no_success(4)[OF Suc.prems, of A ?E] pre by simp
    from Suc.IH[OF h]
    have "same_setup ?b (loop_state k az A ?E ?b)"
      and "message_count (loop_state k az A ?E ?b) = message_count ?b"
      by simp_all
    then show ?thesis
      using True loop_body_no_success(1,2)[OF Suc.prems, of A] same_setup_trans
      by auto
  qed
qed

lemma loop_never_exits:
  "\<not> template_known s \<or> (\<forall>j. \<not> send_succeeds az (device s) (E j)) \<Longrightarrow>
   is_running s \<Longrightarrow> \<not> limit_reached s \<Longrightarrow> simulation_loop n az A E s = None"
proof (induction n arbitrary: s E)
  case 0
  then show ?case by simp
next
  case (Suc n)
  let ?E = "\<lambda>i. E (i + attempts_per_iteration s)"
  let ?b = "loop_body az A E s"
  have pre: "\<not> template_known s \<or> (\<forall>j. \<not> send_succeeds az (device s) (?E j))"
    using Suc.prems(1) by auto
  have h: "\<not> template_known ?b \<or> (\<forall>j. \<not> send_succeeds az (device ?b) (?E j))"
    using loop_body_no_success(4)[OF Suc.prems(1), of A ?E] pre by simp
  have r: "is_running ?b"
    using loop_body_no_success(1)[OF Suc.prems(1), of A] Suc.prems(2)
    by (simp add: same_setup_def)
  have l: "\<not> limit_reached ?b"
    using loop_body_no_success(3)[OF Suc.prems(1), of A] Suc.prems(3) by simp
  show ?case using Suc.IH[OF h r l] Suc.prems(2,3) by simp
qed

lemma loop_state_errors:
  assumes "\<forall>j. \<not> send_succeeds az (device s) (E j)"
    and "is_running s" and "\<not> limit_reached s"
  shows "dev_error_count (device (loop_state k az A E s)) =
     dev_error_count (device s) +
       (if template_known s \<and> has_client (device s) \<and> is_connected (device s)
        then int k * int (attempts_per_iteration s) else 0)"
  using assms
proof (induction k arbitrary: s E)
  case 0
  then show ?case by simp
next
  case (Suc k)
  let ?E = "\<lambda>i. E (i + attempts_per_iteration s)"
  let ?b = "loop_body az A E s"
  have az: az using Suc.prems(1)[rule_format, of 0] by (cases az) (simp_all add: send_succeeds_def)
  have ns: "\<not> template_known s \<or> (\<forall>j. \<not> send_succeeds az (device s) (E j))"
    using Suc.prems(1) by simp
  have ss: "same_setup s ?b" by (rule loop_body_no_success(1)[OF ns])
  have f: "\<forall>j. \<not> send_succeeds az (device ?b) (?E j)"
    using same_setup_succeeds[OF ss] Suc.prems(1) by simp
  have r: "is_running ?b" using ss Suc.prems(2) by (simp add: same_setup_def)
  have l: "\<not> limit_reached ?b"
    using loop_body_no_success(3)[OF ns, of A] Suc.prems(3) by simp
  have raise: "has_client (device s) \<and> is_connected (device s) \<Longrightarrow> raised E n = int n" for n
  proof (rule raised_all, rule allI)
    fix j
    assume "has_client (device s) \<and> is_connected (device s)"
    then show "send_raises (E j)"
      using Suc.prems(1)[rule_format, of j] az by (simp add: send_succeeds_def)
  qed
  have e1: "dev_error_count (device ?b) =
     dev_error_count (device s) +
       (if template_known s \<and> has_client (device s) \<and> is_connected (device s)
        then int (attempts_per_iteration s) else 0)"
    using loop_body_effect[of s az A E] az raise by auto
  have same: "template_known ?b = template_known s"
    "has_client (device ?b) = has_client (device s)"
    "is_connected (device ?b) = is_connected (device s)"
    "attempts_per_iteration ?b = attempts_per_iteration s"
    using ss same_setup_attempts[OF ss] by (simp_all add: same_setup_def)
  show ?case
    using Suc.IH[OF f r l] Suc.prems(2,3)
    by (simp add: e1 same algebra_simps)
qed

lemma loop_body_single_ok:
  assumes "\<not> burst_mode (sim_config s)" and "template_known s"
    and "send_succeeds az (device s) (E 0)"
  shows "same_setup s (loop_body az A E s)"
    and "message_count (loop_body az A E s) = message_count s + 1"
    and "dev_message_count (device (loop_body az A E s)) = dev_message_count (device s) + 1"
  using loop_body_effect[of s az A E] assms
  by (simp_all add: attempts_per_iteration_def successes_def)

lemma limit_reached_Some:
  "max_messages (sim_config s) = Some m \<Longrightarrow> 0 < m \<Longrightarrow>
   limit_reached s = (message_count s \<ge> m)"
  by (simp add: limit_reached_def)

lemma single_ok_step:
  assumes "\<not> burst_mode (sim_config s)" and "max_messages (sim_config s) = Some m"
    and "is_running s" and "template_known s"
    and "\<forall>j. send_succeeds az (device s) (E j)"
  shows "\<not> burst_mode (sim_config (loop_body az A E s))"
    and "max_messages (sim_config (loop_body az A E s)) = Some m"
    and "is_running (loop_body az A E s)"
    and "template_known (loop_body az A E s)"
    and "\<forall>j. send_succeeds az (device (loop_body az A E s)) (E (j + attempts_per_iteration s))"
proof -
  have s0: "send_succeeds az (device s) (E 0)" using assms(5) by simp
  note ss = loop_body_single_ok(1)[where s = s and az = az and E = E and A = A,
      OF assms(1) assms(4) s0]
  show "\<not> burst_mode (sim_config (loop_body az A E s))"
    and "max_messages (sim_config (loop_body az A E s)) = Some m"
    and "is_running (loop_body az A E s)"
    and "template_known (loop_body az A E s)"
    using ss assms(1-4) by (simp_all add: same_setup_def)
  show "\<forall>j. send_succeeds az (device (loop_body az A E s)) (E (j + attempts_per_iteration s))"
    using same_setup_succeeds[OF ss] assms(5) by simp
qed

lemma single_ok_state:
  assumes "\<not> burst_mode (sim_config s)" and "max_messages (sim_config s) = Some m"
    and "is_running s" and "template_known s"
    and "\<forall>j. send_succeeds az (device s) (E j)"
    and "0 < m" and "message_count s \<le> m"
  shows "message_count (loop_state k az A E s) = min (message_count s + int k) m \<and>
         dev_message_count (device (loop_state k az A E s)) =
           dev_message_count (device s) + (min (message_count s + int k) m - message_count s)"
  using assms
proof (induction k arbitrary: s E)
  case 0
  then show ?case by simp
next
  case (Suc k)
  show ?case
  proof (cases "message_count s \<ge> m")
    case True
    then have "limit_reached s" using limit_reached_Some[OF Suc.prems(2,6)] by simp
    then show ?thesis using True Suc.prems(7) by simp
  next
    case False
    then have nl: "\<not> limit_reached s" using limit_reached_Some[OF Suc.prems(2,6)] by simp
    let ?E = "\<lambda>i. E (i + attempts_per_iteration s)"
    let ?b = "loop_body az A E s"
    have s0: "send_succeeds az (device s) (E 0)" using Suc.prems(5) by simp
    note b = loop_body_single_ok[where s = s and az = az and E = E and A = A,
        OF Suc.prems(1) Suc.prems(4) s0]
    note st = single_ok_step[where A = A, OF Suc.prems(1-5)]
    have le: "message_count ?b \<le> m" using b(2) False by simp
    from Suc.IH[OF st(1) st(2) st(3) st(4) st(5) Suc.prems(6) le]
    show ?thesis using nl Suc.prems(3) b(2) b(3) by simp
  qed
qed

lemma single_ok_terminates:
  assumes "\<not> burst_mode (sim_config s)" and "max_messages (sim_config s) = Some m"
    and "is_running s" and "template_known s"
    and "\<forall>j. send_succeeds az (device s) (E j)"
    and "0 < m" and "message_count s = m - int j"
  shows "simulation_loop (Suc j + n) az A E s = Some (loop_finally (loop_state j az A E s)) \<and>
         (\<forall>i\<le>j. simulation_loop i az A E s = None)"
  using assms
proof (induction j arbitrary: s E)
  case 0
  then have "limit_reached s" using limit_reached_Some[OF "0.prems"(2,6)] by simp
  then show ?case using "0.prems"(3) by simp
next
  case (Suc j)
  have nl: "\<not> limit_reached s"
    using limit_reached_Some[OF Suc.prems(2,6)] Suc.prems(7) by simp
  let ?E = "\<lambda>i. E (i + attempts_per_iteration s)"
  let ?b = "loop_body az A E s"
  have s0: "send_succeeds az (device s) (E 0)" using Suc.prems(5) by simp
  note b = loop_body_single_ok[where s = s and az = az and E = E and A = A,
      OF Suc.prems(1) Suc.prems(4) s0]
  note st = single_ok_step[where A = A, OF Suc.prems(1-5)]
  have c: "message_count ?b = m - int j" using b(2) Suc.prems(7) by simp
  from Suc.IH[OF st(1) st(2) st(3) st(4) st(5) Suc.prems(6) c]
  have t: "simulation_loop (Suc j + n) az A ?E ?b = Some (loop_finally (loop_state j az A ?E ?b))"
    and e: "\<forall>i\<le>j. simulation_loop i az A ?E ?b = None"
    by simp_all
  have early: "simulation_loop i az A E s = None" if "i \<le> Suc j" for i
  proof (cases i)
    case 0
    then show ?thesis by simp
  next
    case (Suc i')
    then have "i' \<le> j" using that by simp
    then show ?thesis using e Suc nl Suc.prems(3) by simp
  qed
  show ?case using t early nl Suc.prems(3) by simp
qed

lemma sample_simulation_facts:
  "\<not> burst_mode (sim_config (sample_simulation tn))"
  "max_messages (sim_config (sample_simulation tn)) = Some 5"
  "is_running (sample_simulation tn)"
  "message_count (sample_simulation tn) = 0"
  "\<not> has_client (device (sample_simulation tn))"
  "dev_message_count (device (sample_simulation tn)) = 0"
  "dev_error_count (device (sample_simulation tn)) = 0"
  by (simp_all add: sample_simulation_def start_def DeviceSimulation_init_def
      VirtualDevice_init_def capped_config_def SimulationConfig_default_def)

lemma sample_simulation_known:
  "template_known (sample_simulation ''motion_sensor'')"
  "\<not> template_known (sample_simulation ''gps_tracker'')"
  by (simp_all add: sample_simulation_def start_def DeviceSimulation_init_def
      VirtualDevice_init_def sample_config_def template_known_def get_template_def
      MessageGenerator_init_def)

lemma sample_simulation_limit: "\<not> limit_reached (sample_simulation tn)"
  by (simp add: limit_reached_def sample_simulation_facts)

lemma connected_simulation_facts:
  "\<not> burst_mode (sim_config connected_simulation)"
  "is_running connected_simulation"
  "\<not> limit_reached connected_simulation"
  "has_client (device connected_simulation)"
  "is_connected (device connected_simulation)"
  "dev_error_count (device connected_simulation) = 0"
  "template_known connected_simulation"
  "attempts_per_iteration connected_simulation = 1"
  by (simp_all add: connected_simulation_def start_def DeviceSimulation_init_def
      VirtualDevice_init_def capped_config_def SimulationConfig_default_def limit_reached_def
      sample_config_def template_known_def get_template_def MessageGenerator_init_def
      attempts_per_iteration_def)

text \<open>
  Claim C4, as amended. A running simulation with \<open>burst_mode\<close> off, \<open>max_messages\<close> 5,
  no message counted yet, a device whose template name its generator knows and sends
  that always succeed stops by itself: the loop returns at its sixth test of the limit
  and not before, with \<open>message_count\<close> 5, \<open>is_running\<close> false and exactly 5 messages
  sent by the device. After \<open>k\<close> iterations the count is \<open>min k 5\<close>: it never exceeds 5.
\<close>

theorem capped_simulation_stops_itself:
  assumes "\<not> burst_mode (sim_config s)" and "max_messages (sim_config s) = Some 5"
    and "is_running s" and "message_count s = 0" and "template_known s"
    and "\<forall>j. send_succeeds azure_available (device s) (E j)"
  shows "simulation_loop (6 + n) azure_available A E s =
           Some (loop_finally (loop_state 5 azure_available A E s)) \<and>
         (\<forall>i\<le>5. simulation_loop i azure_available A E s = None) \<and>
         message_count (loop_finally (loop_state 5 azure_available A E s)) = 5 \<and>
         \<not> is_running (loop_finally (loop_state 5 azure_available A E s)) \<and>
         dev_message_count (device (loop_finally (loop_state 5 azure_available A E s))) =
           dev_message_count (device s) + 5 \<and>
         message_count (loop_state k azure_available A E s) = min (int k) 5 \<and>
         dev_message_count (device (loop_state k azure_available A E s)) =
           dev_message_count (device s) + min (int k) 5"
proof -
  have m: "(0::int) < 5" by simp
  have c: "message_count s = 5 - int 5" using assms(4) by simp
  have le: "message_count s \<le> 5" using assms(4) by simp
  note t = single_ok_terminates[where A = A and n = n, OF assms(1) assms(2) assms(3) assms(5)
      assms(6) m c]
  note st = single_ok_state[where A = A, OF assms(1) assms(2) assms(3) assms(5) assms(6) m le]
  have six: "6 + n = Suc 5 + n" by simp
  show ?thesis
    using t st[of k] st[of 5] assms(4)
    by (simp only: six) (simp add: loop_finally_def)
qed

theorem capped_simulation_stops_itself_witness:
  "\<not> burst_mode (sim_config (sample_simulation ''motion_sensor'')) \<and>
   max_messages (sim_config (sample_simulation ''motion_sensor'')) = Some 5 \<and>
   simulation_loop 6 False arith0 (\<lambda>i. send_env_ok) (sample_simulation ''motion_sensor'') =
     Some (loop_finally
       (loop_state 5 False arith0 (\<lambda>i. send_env_ok) (sample_simulation ''motion_sensor''))) \<and>
   simulation_loop 5 False arith0 (\<lambda>i. send_env_ok) (sample_simulation ''motion_sensor'') = None \<and>
   message_count (loop_finally
       (loop_state 5 False arith0 (\<lambda>i. send_env_ok) (sample_simulation ''motion_sensor''))) = 5 \<and>
   message_count
     (loop_state 9 False arith0 (\<lambda>i. send_env_ok) (sample_simulation ''motion_sensor'')) = 5"
  using capped_simulation_stops_itself[where s = "sample_simulation ''motion_sensor''"
      and azure_available = False and E = "\<lambda>i. send_env_ok" and A = arith0 and n = 0 and k = 9]
  by (simp add: sample_simulation_facts sample_simulation_known send_succeeds_def)

text \<open>
  The claim as stated fails for a device whose template name the simulation's generator
  does not have (the device dialog offers \<open>gps_tracker\<close>): no message is generated,
  nothing is sent although every send would succeed, the count stays 0 and the loop
  never returns.
\<close>

theorem unknown_template_never_stops_counterexample:
  "\<not> burst_mode (sim_config (sample_simulation ''gps_tracker'')) \<and>
   max_messages (sim_config (sample_simulation ''gps_tracker'')) = Some 5 \<and>
   is_running (sample_simulation ''gps_tracker'') \<and>
   send_succeeds False (device (sample_simulation ''gps_tracker'')) send_env_ok \<and>
   (\<forall>n. simulation_loop n False arith0 (\<lambda>i. send_env_ok) (sample_simulation ''gps_tracker'') = None) \<and>
   (\<forall>k. message_count
          (loop_state k False arith0 (\<lambda>i. send_env_ok) (sample_simulation ''gps_tracker'')) = 0)"
proof -
  have u: "\<not> template_known (sample_simulation ''gps_tracker'') \<or>
      (\<forall>j. \<not> send_succeeds False (device (sample_simulation ''gps_tracker'')) send_env_ok)"
    by (simp add: sample_simulation_known)
  have a: "simulation_loop n False arith0 (\<lambda>i. send_env_ok) (sample_simulation ''gps_tracker'') = None"
    for n
    by (rule loop_never_exits[OF u sample_simulation_facts(3) sample_simulation_limit])
  have b: "message_count
      (loop_state k False arith0 (\<lambda>i. send_env_ok) (sample_simulation ''gps_tracker'')) = 0" for k
    using loop_state_no_success[OF u, of k arith0] by (simp add: sample_simulation_facts)
  show ?thesis
    using a b by (simp add: sample_simulation_facts send_succeeds_def)
qed

text \<open>
  Claim C6, as amended. A send that raises inside the SDK call returns failure and
  increments the device's \<open>error_count\<close>; a send refused because the device has no
  connected client returns failure and leaves the device as it is. In a running
  simulation whose limit is not reached and whose sends all fail, no failure stops the
  loop: it does not return, however many iterations it is given; after every number of
  iterations it is still running below its limit, and the device's \<open>error_count\<close> has
  grown by one for every send attempted on a connected device, and not at all on a
  device that is not connected.
\<close>

theorem failed_send_continues:
  "(azure_available \<and> has_client dev \<and> is_connected dev \<and> send_raises env \<longrightarrow>
      send_message azure_available env m dev =
        (False, dev\<lparr>dev_error_count := dev_error_count dev + 1,
                    dev_events := dev_events dev @
                      [MESSAGE_FAILED (device_id (dev_config dev)) (send_now env)]\<rparr>)) \<and>
   (azure_available \<and> \<not> (has_client dev \<and> is_connected dev) \<longrightarrow>
      send_message azure_available env m dev = (False, dev)) \<and>
   (is_running s \<and> \<not> limit_reached s \<and>
    (\<forall>j. \<not> send_succeeds azure_available (device s) (E j)) \<longrightarrow>
      simulation_loop n azure_available A E s = None \<and>
      is_running (loop_state k azure_available A E s) \<and>
      \<not> limit_reached (loop_state k azure_available A E s) \<and>
      dev_error_count (device (loop_state k azure_available A E s)) =
        dev_error_count (device s) +
          (if template_known s \<and> has_client (device s) \<and> is_connected (device s)
           then int k * int (attempts_per_iteration s) else 0))"
proof -
  have a: "send_message azure_available env m dev =
        (False, dev\<lparr>dev_error_count := dev_error_count dev + 1,
                    dev_events := dev_events dev @
                      [MESSAGE_FAILED (device_id (dev_config dev)) (send_now env)]\<rparr>)"
    if "azure_available \<and> has_client dev \<and> is_connected dev \<and> send_raises env"
    using that by (simp add: send_message_def)
  have b: "send_message azure_available env m dev = (False, dev)"
    if "azure_available \<and> \<not> (has_client dev \<and> is_connected dev)"
    using that by (auto simp: send_message_def)
  have c: "simulation_loop n azure_available A E s = None \<and>
      is_running (loop_state k azure_available A E s) \<and>
      \<not> limit_reached (loop_state k azure_available A E s) \<and>
      dev_error_count (device (loop_state k azure_available A E s)) =
        dev_error_count (device s) +
          (if template_known s \<and> has_client (device s) \<and> is_connected (device s)
           then int k * int (attempts_per_iteration s) else 0)"
    if h: "is_running s \<and> \<not> limit_reached s \<and>
      (\<forall>j. \<not> send_succeeds azure_available (device s) (E j))"
  proof -
    from h have r: "is_running s" and l: "\<not> limit_reached s"
      and f: "\<forall>j. \<not> send_succeeds azure_available (device s) (E j)" by simp_all
    have ns: "\<not> template_known s \<or> (\<forall>j. \<not> send_succeeds azure_available (device s) (E j))"
      using f by simp
    note st = loop_state_no_success[OF ns, of k A]
    have "limit_reached (loop_state k azure_available A E s) = limit_reached s"
      using st same_setup_limit by blast
    moreover have "is_running (loop_state k azure_available A E s) = is_running s"
      using st by (simp add: same_setup_def)
    ultimately show ?thesis
      using loop_never_exits[OF ns r l, of n A] loop_state_errors[OF f r l, of k A] r l
      by simp
  qed
  show ?thesis using a b c by blast
qed

theorem failed_send_continues_witness:
  "send_raises send_env_raising \<and>
   \<not> send_succeeds True (device connected_simulation) send_env_raising \<and>
   simulation_loop 50 True arith0 (\<lambda>i. send_env_raising) connected_simulation = None \<and>
   is_running (loop_state 7 True arith0 (\<lambda>i. send_env_raising) connected_simulation) \<and>
   dev_error_count
     (device (loop_state 7 True arith0 (\<lambda>i. send_env_raising) connected_simulation)) = 7 \<and>
   fst (send_message True send_env_raising [(''k'', PNum 1)] (device connected_simulation)) = False \<and>
   dev_error_count
     (snd (send_message True send_env_raising [(''k'', PNum 1)] (device connected_simulation))) = 1"
  using failed_send_continues[where azure_available = True and dev = "device connected_simulation"
      and env = send_env_raising and m = "[(''k'', PNum 1)]" and s = connected_simulation
      and E = "\<lambda>i. send_env_raising" and A = arith0 and n = 50 and k = 7]
  by (simp add: connected_simulation_facts send_succeeds_def send_env_raising_def)

text \<open>
  The claim as stated fails: with the SDK present and the device not connected, a send
  reports failure and no error counter moves, neither in one send nor over iterations
  of the loop.
\<close>

theorem not_connected_send_uncounted_counterexample:
  "\<not> send_succeeds True (device (sample_simulation ''motion_sensor'')) send_env_ok \<and>
   send_message True send_env_ok [(''k'', PNum 1)] (device (sample_simulation ''motion_sensor'')) =
     (False, device (sample_simulation ''motion_sensor'')) \<and>
   dev_error_count (device (sample_simulation ''motion_sensor'')) = 0 \<and>
   dev_error_count (device
     (loop_state 3 True arith0 (\<lambda>i. send_env_ok) (sample_simulation ''motion_sensor''))) = 0"
proof -
  have f: "\<forall>j. \<not> send_succeeds True (device (sample_simulation ''motion_sensor'')) send_env_ok"
    by (simp add: send_succeeds_def sample_simulation_facts)
  have e: "dev_error_count (device
     (loop_state 3 True arith0 (\<lambda>i. send_env_ok) (sample_simulation ''motion_sensor''))) = 0"
    using loop_state_errors[OF f sample_simulation_facts(3) sample_simulation_limit, of 3 arith0]
    by (simp add: sample_simulation_facts)
  show ?thesis
    using f e by (simp add: send_message_def sample_simulation_facts)
qed

text \<open>
  Claim C9. In single and in burst mode \<open>message_count\<close> grows by exactly the number of
  successful sends, so a failed send leaves it unchanged. When every send fails, the
  count after any number of loop iterations is the count at the start, and so is the
  answer of the limit test; from a count of 0, with no cap or a cap that is not
  negative, the count stays 0, the cap is never reached and the loop never returns.
\<close>

theorem failed_send_not_counted:
  "message_count (send_single_message azure_available A env s) =
     message_count s +
       (if template_known s \<and> send_succeeds azure_available (device s) env then 1 else 0) \<and>
   message_count (send_burst_messages azure_available A E s) =
     message_count s +
       (if template_known s
        then successes azure_available (device s) E (nat (burst_count (sim_config s))) else 0) \<and>
   ((\<forall>j. \<not> send_succeeds azure_available (device s) (E j)) \<longrightarrow>
      message_count (send_burst_messages azure_available A E s) = message_count s \<and>
      message_count (loop_state k azure_available A E s) = message_count s \<and>
      limit_reached (loop_state k azure_available A E s) = limit_reached s \<and>
      (is_running s \<and> message_count s = 0 \<and>
       (case max_messages (sim_config s) of None \<Rightarrow> True | Some m \<Rightarrow> 0 \<le> m) \<longrightarrow>
         message_count (loop_state k azure_available A E s) = 0 \<and>
         \<not> limit_reached (loop_state k azure_available A E s) \<and>
         simulation_loop n azure_available A E s = None))"
proof -
  have a: "message_count (send_single_message azure_available A env s) =
     message_count s +
       (if template_known s \<and> send_succeeds azure_available (device s) env then 1 else 0)"
    using send_single_effect[of s azure_available A env] by simp
  have b: "message_count (send_burst_messages azure_available A E s) =
     message_count s +
       (if template_known s
        then successes azure_available (device s) E (nat (burst_count (sim_config s))) else 0)"
    using burst_loop_effect[of s azure_available A E 0 "nat (burst_count (sim_config s))"]
    by (simp add: send_burst_messages_def successes_def)
  have c: "message_count (send_burst_messages azure_available A E s) = message_count s \<and>
      message_count (loop_state k azure_available A E s) = message_count s \<and>
      limit_reached (loop_state k azure_available A E s) = limit_reached s \<and>
      (is_running s \<and> message_count s = 0 \<and>
       (case max_messages (sim_config s) of None \<Rightarrow> True | Some m \<Rightarrow> 0 \<le> m) \<longrightarrow>
         message_count (loop_state k azure_available A E s) = 0 \<and>
         \<not> limit_reached (loop_state k azure_available A E s) \<and>
         simulation_loop n azure_available A E s = None)"
    if f: "\<forall>j. \<not> send_succeeds azure_available (device s) (E j)"
  proof -
    have ns: "\<not> template_known s \<or> (\<forall>j. \<not> send_succeeds azure_available (device s) (E j))"
      using f by simp
    note st = loop_state_no_success[OF ns, of k A]
    have lim: "limit_reached (loop_state k azure_available A E s) = limit_reached s"
      using st same_setup_limit by blast
    have nl: "\<not> limit_reached s"
      if "message_count s = 0"
        and "case max_messages (sim_config s) of None \<Rightarrow> True | Some m \<Rightarrow> 0 \<le> m"
      using that by (auto simp: limit_reached_def split: option.splits)
    show ?thesis
      using b successes_none[OF f] st lim nl loop_never_exits[OF ns, of n A]
      by auto
  qed
  show ?thesis using a b c by blast
qed

theorem failed_send_not_counted_witness:
  "(\<forall>j. \<not> send_succeeds True (device (sample_simulation ''motion_sensor'')) send_env_ok) \<and>
   max_messages (sim_config (sample_simulation ''motion_sensor'')) = Some 5 \<and>
   message_count
     (loop_state 40 True arith0 (\<lambda>i. send_env_ok) (sample_simulation ''motion_sensor'')) = 0 \<and>
   simulation_loop 40 True arith0 (\<lambda>i. send_env_ok) (sample_simulation ''motion_sensor'') = None"
  using failed_send_not_counted[where azure_available = True and A = arith0 and env = send_env_ok
      and s = "sample_simulation ''motion_sensor''" and E = "\<lambda>i. send_env_ok" and k = 40 and n = 40]
  by (simp add: sample_simulation_facts send_succeeds_def)

end
